theory Spec2Isabelle
  imports Main "HOL-Library.Sublist"
begin

section \<open>Python string primitives used by the sub-command\<close>

text \<open>
  Strings are character lists.  The functions below are the string methods the source
  calls: \<^verbatim>\<open>str.find\<close> (lowest index or -1), \<^verbatim>\<open>str.strip(chars)\<close>,
  \<^verbatim>\<open>str.strip()\<close> (white space), \<^verbatim>\<open>str.split(sep)\<close> for a
  one-character separator, and the \<^verbatim>\<open>%d\<close> rendering of a non-negative integer.
\<close>

fun find_from :: "char \<Rightarrow> string \<Rightarrow> int \<Rightarrow> int" where
  "find_from c [] i = - 1"
| "find_from c (x # xs) i = (if x = c then i else find_from c xs (i + 1))"

definition str_find :: "string \<Rightarrow> char \<Rightarrow> int" where
  "str_find s c = find_from c s 0"

definition strip_chars :: "char list \<Rightarrow> string \<Rightarrow> string" where
  "strip_chars cs s =
     rev (dropWhile (\<lambda>c. c \<in> set cs) (rev (dropWhile (\<lambda>c. c \<in> set cs) s)))"

definition dquote :: char where
  "dquote = CHR 0x22"

definition newline :: char where
  "newline = CHR 0x0A"

text \<open>
  The characters below 256 that Python 3's \<^verbatim>\<open>str.strip()\<close> removes: those for
  which \<^verbatim>\<open>str.isspace\<close> holds.
\<close>

definition whitespace :: "char list" where
  "whitespace = [CHR 0x20, CHR 0x09, CHR 0x0A, CHR 0x0D, CHR 0x0B, CHR 0x0C,
                 CHR 0x1C, CHR 0x1D, CHR 0x1E, CHR 0x1F, CHR 0x85, CHR 0xA0]"

definition strip :: "string \<Rightarrow> string" where
  "strip s = strip_chars whitespace s"

fun split_on :: "char \<Rightarrow> string \<Rightarrow> string list" where
  "split_on c [] = [[]]"
| "split_on c (x # xs) =
     (if x = c then [] # split_on c xs
      else (case split_on c xs of
              [] \<Rightarrow> [[x]]
            | w # ws \<Rightarrow> (x # w) # ws))"

definition digit_char :: "nat \<Rightarrow> char" where
  "digit_char d = char_of (48 + d)"

fun show_nat :: "nat \<Rightarrow> string" where
  "show_nat n = (if n < 10 then [digit_char n] else show_nat (n div 10) @ [digit_char (n mod 10)])"

declare show_nat.simps [simp del]

text \<open>\<^verbatim>\<open>os.path.join(a, b)\<close> for two components on a POSIX system.\<close>

definition path_join :: "string \<Rightarrow> string \<Rightarrow> string" where
  "path_join a b =
     (if b \<noteq> [] \<and> hd b = CHR ''/'' then b
      else if a = [] \<or> last a = CHR ''/'' then a @ b
      else a @ ''/'' @ b)"

section \<open>Errors, external effects and the run type\<close>

text \<open>
  Every exception of the source is a value.  \<open>RevisionError\<close> is the class the module
  declares; \<open>OptionMissed\<close> is what \<^verbatim>\<open>RaiseExceptionIfOptionMissed\<close> raises;
  \<open>AttributeError\<close> is Python's failed attribute lookup; \<open>IOError\<close> stands for any
  exception raised inside the document writer or the file system.
\<close>

datatype error =
    RevisionError string
  | OptionMissed string
  | AttributeError string
  | IOError

datatype doc_format = TEXT | HTML

text \<open>
  A renderable cell: a plain string, the result of
  \<^verbatim>\<open>item(content, link, tag)\<close>, or a Python tuple of cells.
\<close>

datatype cell =
    Str string
  | Item cell "string option" "string option"
  | Tuple "cell list"

datatype table_spec = Widths "nat list" | Css string

text \<open>
  The calls the sub-command makes on its collaborators, in the order it makes them.
  A document handle is identified by the path it was opened on.
\<close>

datatype effect =
    Print string
  | RevParse string
  | RevList string string
  | Log string string
  | MakeDirs string
  | Open string string doc_format "string option"
  | Section string string
  | TableEnter string table_spec
  | Row string "cell list" "string list option"
  | TableExit string
  | Close string

type_synonym 'a run = "(error + 'a) \<times> effect list"

definition succeed :: "'a \<Rightarrow> 'a run" where
  "succeed x = (Inr x, [])"

definition raise :: "error \<Rightarrow> 'a run" where
  "raise e = (Inl e, [])"

definition and_then :: "'a run \<Rightarrow> ('a \<Rightarrow> 'b run) \<Rightarrow> 'b run" where
  "and_then m f =
     (case m of
        (Inl e, out) \<Rightarrow> (Inl e, out)
      | (Inr x, out) \<Rightarrow> (case f x of (r, out') \<Rightarrow> (r, out @ out')))"

primrec for_each :: "'a list \<Rightarrow> ('a \<Rightarrow> unit run) \<Rightarrow> unit run" where
  "for_each [] f = succeed ()"
| "for_each (x # xs) f = and_then (f x) (\<lambda>_. for_each xs f)"

primrec for_acc :: "'a list \<Rightarrow> 's \<Rightarrow> ('a \<Rightarrow> 's \<Rightarrow> 's run) \<Rightarrow> 's run" where
  "for_acc [] s f = succeed s"
| "for_acc (x # xs) s f = and_then (f x s) (\<lambda>s'. for_acc xs s' f)"

section \<open>The collaborators\<close>

text \<open>
  \<^verbatim>\<open>GitProject\<close> is outside the module.  Its three queries return a status and the
  text git printed; they are parameters of the model, and each call is recorded.
\<close>

record git_project =
  rev_parse :: "string \<Rightarrow> int \<times> string"
  rev_list :: "string \<Rightarrow> string \<Rightarrow> int \<times> string"
  log :: "string \<Rightarrow> string \<Rightarrow> int \<times> string"
  project_remote :: string

definition git_rev_parse :: "git_project \<Rightarrow> string \<Rightarrow> (int \<times> string) run" where
  "git_rev_parse gitp refs = (Inr (rev_parse gitp refs), [RevParse refs])"

definition git_rev_list :: "git_project \<Rightarrow> string \<Rightarrow> string \<Rightarrow> (int \<times> string) run" where
  "git_rev_list gitp opt refs = (Inr (rev_list gitp opt refs), [RevList opt refs])"

definition git_log :: "git_project \<Rightarrow> string \<Rightarrow> string \<Rightarrow> (int \<times> string) run" where
  "git_log gitp fmt rng = (Inr (log gitp fmt rng), [Log fmt rng])"

text \<open>
  \<^verbatim>\<open>Pattern\<close> is outside the module too.  A pattern value records how it was
  constructed: \<^verbatim>\<open>Pattern()\<close> or \<^verbatim>\<open>Pattern(pats)\<close>.
\<close>

datatype pattern = PatternEmpty | Pattern "string list"

text \<open>
  Modelled from the spec: the truth value of a \<^verbatim>\<open>Pattern\<close> object, which the class
  (not in the module) decides.  The spec: filter files are created only when at least one
  pattern token was supplied.
\<close>

fun pattern_truthy :: "pattern \<Rightarrow> bool" where
  "pattern_truthy PatternEmpty = False"
| "pattern_truthy (Pattern pats) = (pats \<noteq> [])"

text \<open>
  The environment of a run: whether a path exists when the run starts, what
  \<^verbatim>\<open>pattern.match(aliases, value)\<close> answers, which writer or file-system call raises,
  and the URL parser of the standard library.
\<close>

record parsed_url =
  url_scheme :: string
  url_hostname :: "string option"
  url_port :: "nat option"
  url_path :: string

record env =
  path_exists :: "string \<Rightarrow> bool"
  pattern_match :: "pattern \<Rightarrow> string \<Rightarrow> string \<Rightarrow> bool"
  io_fails :: "effect \<Rightarrow> bool"
  url_parser :: "string \<Rightarrow> parsed_url"

definition io_op :: "env \<Rightarrow> effect \<Rightarrow> unit run" where
  "io_op env e = (if io_fails env e then (Inl IOError, []) else (Inr (), [e]))"

definition print :: "string \<Rightarrow> unit run" where
  "print s = (Inr (), [Print s])"

section \<open>build_pattern\<close>

text \<open>
  \<^verbatim>\<open>build_pattern(patterns)\<close>, lines 109-123.  \<open>patterns\<close> is the option value:
  \<open>None\<close> or a list of tokens.
\<close>

definition build_pattern :: "string list option \<Rightarrow> pattern" where
  "build_pattern patterns =
     (case patterns of
        None \<Rightarrow> PatternEmpty
      | Some ps \<Rightarrow>
          if ps \<noteq> [] then
            Pattern (foldl (\<lambda>pats pat.
                       if str_find pat (CHR '':'') > 0 then pats @ [pat]
                       else pats @ [''email:'' @ pat]) [] ps)
          else PatternEmpty)"

section \<open>Revision resolution\<close>

text \<open>\<^verbatim>\<open>_secure_sha(gitp, refs)\<close>, lines 129-138.\<close>

definition secure_sha :: "git_project \<Rightarrow> string \<Rightarrow> string run" where
  "secure_sha gitp refs =
     and_then (git_rev_parse gitp refs) (\<lambda>(ret, sha1).
       if ret = 0 then succeed sha1
       else
         and_then (git_rev_parse gitp (project_remote gitp @ ''/'' @ refs)) (\<lambda>(ret, sha1).
           if ret = 0 then succeed sha1
           else raise (RevisionError (''Unknown '' @ refs))))"

text \<open>
  Lines 143-154: the end reference and the begin references.  With fewer than two
  arguments the begin references are the lines of
  \<^verbatim>\<open>rev_list('--max-parents=0', erefs)\<close>, or none when that query fails.
\<close>

definition resolve_ranges :: "git_project \<Rightarrow> string list \<Rightarrow> (string list \<times> string) run" where
  "resolve_ranges project args =
     (if length args < 2 then
        and_then (if length args = 0
                  then print ''No SHA-1 provided, use HEAD by default''
                  else succeed ()) (\<lambda>_.
        and_then (secure_sha project (if args \<noteq> [] then hd args else ''HEAD'')) (\<lambda>erefs.
        and_then (git_rev_list project ''--max-parents=0'' erefs) (\<lambda>(ret, head).
          succeed (if ret = 0 then split_on newline head else [], erefs))))
      else
        and_then (secure_sha project (args ! 1)) (\<lambda>erefs.
        and_then (secure_sha project (args ! 0)) (\<lambda>bref.
          succeed ([bref], erefs))))"

section \<open>Opening and closing the documents\<close>

definition REPORT_TEXT :: string where "REPORT_TEXT = ''report.txt''"
definition REPORT_HTML :: string where "REPORT_HTML = ''report.html''"
definition FILTER_TEXT :: string where "FILTER_TEXT = ''filter.txt''"
definition FILTER_HTML :: string where "FILTER_HTML = ''filter.html''"

definition TABLE_CSS :: "string list" where
  "TABLE_CSS = [''sha1'', ''email'', ''email'', ''title'']"

definition HTML_CSS :: string where
  "HTML_CSS =
     ''<style type='' @ [dquote] @ ''text/css'' @ [dquote] @ ''>'' @ [newline] @
     ''  pre,code{font-family:courier;}'' @ [newline] @
     ''  h5 {font-family: '' @ [dquote] @ ''Roboto'' @ [dquote] @ '', Sans-Serif;}'' @ [newline] @
     ''  .details,'' @ [newline] @
     ''  .show,'' @ [newline] @
     ''  .hide:focus {display: none;}'' @ [newline] @
     ''  .hide:focus + .show {display: inline;}'' @ [newline] @
     ''  .hide:focus ~ #details {display: block;}'' @ [newline, newline] @
     ''  .hoverTable{font-family: verdana,arial,sans-serif;'' @
     ''width:1200px;border-collapse:collapse;font-size:11px;'' @
     ''text-align:left;}'' @ [newline] @
     ''  .hoverTable td{padding:3px;}'' @ [newline] @
     ''  .hoverTable tr{background: #b8d1f3;}'' @ [newline] @
     ''  .hoverTable tr:nth-child(odd){background: #dae5f4;}'' @ [newline] @
     ''  .hoverTable tr:nth-child(even){background: #ffffff;}'' @ [newline] @
     ''  .hoverTable tr:hover {background-color: #bbbbbb;}'' @ [newline] @
     ''  .sha1 {width:350px}'' @ [newline] @
     ''  .email {width:200px}'' @ [newline] @
     ''  .title {width:450px}'' @ [newline] @
     ''</style>'' @ [newline]"

record documents =
  ftext :: "string option"
  fhtml :: "string option"
  ftextp :: "string option"
  fhtmlp :: "string option"

text \<open>
  \<^verbatim>\<open>FormattedFile.open(path, name, format, css)\<close>.  A handle is \<open>None\<close> until
  its document is opened and is truthy afterwards; it is identified by its path.
\<close>

definition open_file ::
  "env \<Rightarrow> string \<Rightarrow> string \<Rightarrow> doc_format \<Rightarrow> string option \<Rightarrow> string option run" where
  "open_file env p name fmt css =
     and_then (io_op env (Open p name fmt css)) (\<lambda>_. succeed (Some p))"

text \<open>Lines 160-161: the output directory is created when it does not exist.\<close>

definition ensure_output :: "env \<Rightarrow> string \<Rightarrow> unit run" where
  "ensure_output env output =
     (if \<not> path_exists env output then io_op env (MakeDirs output) else succeed ())"

text \<open>Lines 165-173: the text report and, when a pattern was given, its filtered twin.\<close>

definition open_text_documents ::
  "env \<Rightarrow> string \<Rightarrow> string \<Rightarrow> string \<Rightarrow> pattern \<Rightarrow> (string option \<times> string option) run" where
  "open_text_documents env name output fmt pattern =
     (if fmt \<in> {''all'', ''text''} then
        and_then (open_file env (path_join output REPORT_TEXT) name TEXT None) (\<lambda>ft.
        and_then (if pattern_truthy pattern
                  then open_file env (path_join output FILTER_TEXT) name TEXT None
                  else succeed None) (\<lambda>ftp.
          succeed (ft, ftp)))
      else succeed (None, None))"

text \<open>Lines 175-182: the HTML report and, when a pattern was given, its filtered twin.\<close>

definition open_html_documents ::
  "env \<Rightarrow> string \<Rightarrow> string \<Rightarrow> string \<Rightarrow> pattern \<Rightarrow> (string option \<times> string option) run" where
  "open_html_documents env name output fmt pattern =
     (if fmt \<in> {''all'', ''html''} then
        and_then (open_file env (path_join output REPORT_HTML) name HTML (Some HTML_CSS)) (\<lambda>fh.
        and_then (if pattern_truthy pattern
                  then open_file env (path_join output FILTER_HTML) name HTML (Some HTML_CSS)
                  else succeed None) (\<lambda>fhp.
          succeed (fh, fhp)))
      else succeed (None, None))"

text \<open>Lines 156-183.  Nothing is opened when \<open>format\<close> is \<open>None\<close> or empty.\<close>

definition open_documents ::
  "env \<Rightarrow> string \<Rightarrow> string \<Rightarrow> string option \<Rightarrow> pattern \<Rightarrow> documents run" where
  "open_documents env name output format pattern =
     and_then (ensure_output env output) (\<lambda>_.
       case format of
         None \<Rightarrow> succeed \<lparr>ftext = None, fhtml = None, ftextp = None, fhtmlp = None\<rparr>
       | Some fmt \<Rightarrow>
           if fmt = [] then
             succeed \<lparr>ftext = None, fhtml = None, ftextp = None, fhtmlp = None\<rparr>
           else
             and_then (open_text_documents env name output fmt pattern) (\<lambda>(ft, ftp).
             and_then (open_html_documents env name output fmt pattern) (\<lambda>(fh, fhp).
               succeed \<lparr>ftext = ft, fhtml = fh, ftextp = ftp, fhtmlp = fhp\<rparr>)))"

definition close_file :: "env \<Rightarrow> string option \<Rightarrow> unit run" where
  "close_file env f = (case f of None \<Rightarrow> succeed () | Some h \<Rightarrow> io_op env (Close h))"

text \<open>Lines 285-292.\<close>

definition close_documents :: "env \<Rightarrow> documents \<Rightarrow> unit run" where
  "close_documents env docs =
     and_then (close_file env (ftextp docs)) (\<lambda>_.
     and_then (close_file env (fhtmlp docs)) (\<lambda>_.
     and_then (close_file env (ftext docs)) (\<lambda>_.
       close_file env (fhtml docs))))"

section \<open>Extraction of the commit records\<close>

text \<open>
  A commit record is the list \<^verbatim>\<open>[sha1, author, committer, subject]\<close> the source
  builds; it always has four entries, so it is a 4-tuple here.
\<close>

type_synonym commit = "string \<times> string \<times> string \<times> string"

text \<open>
  One pass of the loop over \<^verbatim>\<open>('%ae', '%ce', '%s')\<close>, lines 198-201: the status
  of the query is dropped, the text is stripped of quotes and then of white space.
\<close>

definition field_query :: "git_project \<Rightarrow> string \<Rightarrow> string \<Rightarrow> string run" where
  "field_query project item sha1 =
     and_then (git_log project (''--format='' @ item) (sha1 @ ''^..'' @ sha1)) (\<lambda>(_, val).
       succeed (strip (strip_chars [dquote] val)))"

text \<open>Lines 190-202: the records of one range are appended to \<open>logs\<close>.\<close>

definition extract_range ::
  "git_project \<Rightarrow> string \<Rightarrow> string \<Rightarrow> commit list \<Rightarrow> commit list run" where
  "extract_range project ref erefs logs =
     and_then (git_log project (''--format='' @ [dquote] @ ''%H'') (ref @ ''..'' @ erefs))
       (\<lambda>(ret, sha1s).
         if ret = 0 then
           for_acc (split_on newline sha1s) logs (\<lambda>sha1 logs.
             let sha1 = strip_chars [dquote] sha1 in
             if sha1 = [] then succeed logs
             else
               and_then (field_query project ''%ae'' sha1) (\<lambda>author.
               and_then (field_query project ''%ce'' sha1) (\<lambda>committer.
               and_then (field_query project ''%s'' sha1) (\<lambda>subject.
                 succeed (logs @ [(sha1, author, committer, subject)])))))
         else succeed logs)"

section \<open>Writing the sections\<close>

text \<open>Lines 205-210: the widths of the four text columns.\<close>

definition column_widths :: "commit list \<Rightarrow> nat list" where
  "column_widths logs =
     foldl (\<lambda>column (sha1, author, committer, subject).
              foldl (\<lambda>column (k, col).
                       if length col > column ! k then column[k := length col] else column)
                column (enumerate 0 [sha1, author, committer, subject]))
       [0, 0, 0, 0] logs"

text \<open>
  \<^verbatim>\<open>with f.table(spec) as table: body\<close>.  The table is entered, the body runs, and
  the table is left whether or not the body raised; an exception of the exit replaces
  the body's.
\<close>

definition with_table :: "env \<Rightarrow> string \<Rightarrow> table_spec \<Rightarrow> unit run \<Rightarrow> unit run" where
  "with_table env h spec body =
     and_then (io_op env (TableEnter h spec)) (\<lambda>_.
       case body of (r, out) \<Rightarrow>
         (case io_op env (TableExit h) of
            (Inl e, out') \<Rightarrow> (Inl e, out @ out')
          | (Inr _, out') \<Rightarrow> (r, out @ out')))"

text \<open>Lines 204-222: the text report and, inside it, the filtered text report.\<close>

definition report_text ::
  "env \<Rightarrow> documents \<Rightarrow> pattern \<Rightarrow> string \<Rightarrow> commit list \<Rightarrow> unit run" where
  "report_text env docs pattern refs logs =
     (case ftext docs of
        None \<Rightarrow> succeed ()
      | Some ft \<Rightarrow>
          let column = column_widths logs in
          and_then (io_op env (Section ft refs)) (\<lambda>_.
          and_then (with_table env ft (Widths column)
                     (for_each logs (\<lambda>(sha1, author, committer, subject).
                        io_op env (Row ft [Str sha1, Str author, Str committer, Str subject]
                                     None)))) (\<lambda>_.
            case ftextp docs of
              None \<Rightarrow> succeed ()
            | Some ftp \<Rightarrow>
                and_then (io_op env (Section ftp refs)) (\<lambda>_.
                  with_table env ftp (Widths column)
                    (for_each logs (\<lambda>(sha1, author, committer, subject).
                       if pattern_match env pattern ''e,email'' committer then
                         io_op env (Row ftp [Str sha1, Str author, Str committer, Str subject]
                                      None)
                       else succeed ()))))))"

text \<open>
  \<^verbatim>\<open>item(content, link, tag)\<close> builds a cell and writes nothing, whichever document
  it is called on (the filtered HTML rows build their mail cells with the full document's
  \<^verbatim>\<open>item\<close>).
\<close>

definition mailto :: "string \<Rightarrow> cell" where
  "mailto addr = Item (Str addr) (Some (''mailto:'' @ addr)) None"

text \<open>Lines 227-253: one row of the full HTML report.\<close>

definition html_row ::
  "env \<Rightarrow> string \<Rightarrow> string \<Rightarrow> string option \<Rightarrow> bool \<Rightarrow> commit \<Rightarrow> unit run" where
  "html_row env fh name remote gitiles = (\<lambda>(sha1, author, committer, subject).
     let hauthor = mailto author;
         hcommitter = mailto committer
     in case (if remote = Some [] then None else remote) of
          None \<Rightarrow>
            io_op env (Row fh [Str sha1, hauthor, hcommitter, Str subject] (Some TABLE_CSS))
        | Some r \<Rightarrow>
            if gitiles \<and> name \<noteq> [] then
              let sha1a = Item (Str (take 20 sha1)) (Some (r @ ''#/q/'' @ sha1)) None;
                  sha1b = Item (Str (drop 20 sha1))
                            (Some (r @ ''/plugins/gitiles/'' @ name @ ''/+/'' @ sha1 @ ''^!''))
                            None
              in io_op env (Row fh [Item (Tuple [sha1a, sha1b]) None (Some ''pre''),
                                    hauthor, hcommitter, Str subject] (Some TABLE_CSS))
            else
              let link = Item (Str sha1) (Some (r @ ''#/q/'' @ sha1)) (Some ''pre'')
              in io_op env (Row fh [link, hauthor, hcommitter, Str subject]
                              (Some TABLE_CSS)))"

text \<open>Lines 258-283: one row of the filtered HTML report.\<close>

definition html_row_filtered ::
  "env \<Rightarrow> string \<Rightarrow> pattern \<Rightarrow> string \<Rightarrow> string option \<Rightarrow> bool \<Rightarrow> commit \<Rightarrow> unit run" where
  "html_row_filtered env fhp pattern name remote gitiles = (\<lambda>(sha1, author, committer, subject).
     if \<not> pattern_match env pattern ''e,email'' committer then succeed ()
     else
       let hauthor = mailto author;
           hcommitter = mailto committer
       in case (if remote = Some [] then None else remote) of
            None \<Rightarrow> io_op env (Row fhp [Str sha1, hauthor, hcommitter, Str subject] None)
          | Some r \<Rightarrow>
              if gitiles \<and> name \<noteq> [] then
                let sha1a = Item (Str (take 20 sha1)) (Some (r @ ''#q,'' @ sha1)) None;
                    sha1b = Item (Str (drop 20 sha1))
                              (Some (r @ ''/plugins/gitiles/'' @ name @ ''/+/'' @ sha1 @ ''^!''))
                              None
                in io_op env (Row fhp [Item (Tuple [sha1a, sha1b]) None (Some ''pre''),
                                       hauthor, hcommitter, Str subject] None)
              else
                let link = Item (Str sha1) (Some (r @ ''#q,'' @ sha1)) (Some ''pre'')
                in io_op env (Row fhp [link, hauthor, hcommitter, Str subject] None))"

text \<open>Lines 224-283: the HTML report and, inside it, the filtered HTML report.\<close>

definition report_html ::
  "env \<Rightarrow> documents \<Rightarrow> pattern \<Rightarrow> string \<Rightarrow> string option \<Rightarrow> bool \<Rightarrow> string \<Rightarrow>
   commit list \<Rightarrow> unit run" where
  "report_html env docs pattern name remote gitiles refs logs =
     (case fhtml docs of
        None \<Rightarrow> succeed ()
      | Some fh \<Rightarrow>
          and_then (io_op env (Section fh refs)) (\<lambda>_.
          and_then (with_table env fh (Css ''hoverTable'')
                     (for_each logs (html_row env fh name remote gitiles))) (\<lambda>_.
            case fhtmlp docs of
              None \<Rightarrow> succeed ()
            | Some fhp \<Rightarrow>
                and_then (io_op env (Section fhp refs)) (\<lambda>_.
                  with_table env fhp (Css ''hoverTable'')
                    (for_each logs (html_row_filtered env fhp pattern name remote gitiles))))))"

section \<open>generate_report\<close>

text \<open>Lines 186-283: the body of the loop over the begin references.\<close>

definition range_step ::
  "env \<Rightarrow> git_project \<Rightarrow> string list \<Rightarrow> string list \<Rightarrow> string \<Rightarrow> documents \<Rightarrow> pattern \<Rightarrow>
   string \<Rightarrow> string option \<Rightarrow> bool \<Rightarrow> string \<Rightarrow> commit list \<Rightarrow> commit list run" where
  "range_step env project args brefs erefs docs pattern name remote gitiles ref logs =
     (let refs = (if length brefs > 0 \<and> length args > 1 then ref @ ''..'' @ erefs else erefs)
      in and_then (extract_range project ref erefs logs) (\<lambda>logs.
         and_then (report_text env docs pattern refs logs) (\<lambda>_.
         and_then (report_html env docs pattern name remote gitiles refs logs) (\<lambda>_.
           succeed logs))))"

text \<open>
  \<^verbatim>\<open>generate_report(args, project, name, output, format, patterns, remote, gitiles)\<close>,
  lines 125-294.  \<open>logs\<close> is created once, before the loop, and returned at the end.
\<close>

definition generate_report ::
  "env \<Rightarrow> string list \<Rightarrow> git_project \<Rightarrow> string \<Rightarrow> string \<Rightarrow> string option \<Rightarrow>
   string list option \<Rightarrow> string option \<Rightarrow> bool \<Rightarrow> commit list run" where
  "generate_report env args project name output format patterns remote gitiles =
     (let pattern = build_pattern patterns in
      and_then (resolve_ranges project args) (\<lambda>(brefs, erefs).
      and_then (open_documents env name output format pattern) (\<lambda>docs.
      and_then (for_acc brefs []
                  (range_step env project args brefs erefs docs pattern name remote gitiles))
        (\<lambda>logs.
      and_then (close_documents env docs) (\<lambda>_.
        succeed logs)))))"

section \<open>execute\<close>

record options =
  opt_remote :: "string option"
  opt_output :: "string option"
  opt_gitiles :: bool
  opt_format :: "string option"
  opt_pattern :: "string list option"

text \<open>
  Modelled from the spec: \<^verbatim>\<open>RaiseExceptionIfOptionMissed(option, message)\<close>, a
  helper of the package that is not in the module.  The spec: a missing output option is
  a fatal configuration error before any processing begins.
\<close>

definition raise_exception_if_option_missed :: "string option \<Rightarrow> string \<Rightarrow> string run" where
  "raise_exception_if_option_missed opt msg =
     (case opt of
        None \<Rightarrow> raise (OptionMissed msg)
      | Some v \<Rightarrow> if v = [] then raise (OptionMissed msg) else succeed v)"

text \<open>
  Lines 4-7 bind the module's name \<^verbatim>\<open>urlparse\<close>: both branches of the import are
  \<^verbatim>\<open>from ... import urlparse\<close>, so the name is the library's function, not a module.
  Line 96 then reads the attribute \<^verbatim>\<open>urlparse\<close> of that name; a function object has
  no such attribute.
\<close>

datatype py_object = PyFunction | PyModule

definition urlparse_global :: py_object where
  "urlparse_global = PyFunction"

definition getattr_urlparse :: "env \<Rightarrow> py_object \<Rightarrow> (string \<Rightarrow> parsed_url) run" where
  "getattr_urlparse env obj =
     (case obj of
        PyModule \<Rightarrow> succeed (url_parser env)
      | PyFunction \<Rightarrow> raise (AttributeError ''urlparse''))"

definition lower_char :: "char \<Rightarrow> char" where
  "lower_char c =
     (if (65::nat) \<le> of_char c \<and> of_char c \<le> (90::nat) then char_of (of_char c + (32::nat))
      else c)"

definition lower :: "string \<Rightarrow> string" where
  "lower s = map lower_char s"

text \<open>
  \<^verbatim>\<open>execute(options, *args)\<close>, lines 89-107.  The call of the parent class's
  \<^verbatim>\<open>execute\<close> in line 90 is outside the module and is left out; the project object
  that \<^verbatim>\<open>GitProject\<close> builds in line 105 is a parameter.  The value
  \<^verbatim>\<open>execute\<close> returns is \<open>None\<close>.
\<close>

definition execute :: "env \<Rightarrow> options \<Rightarrow> string list \<Rightarrow> git_project \<Rightarrow> unit run" where
  "execute env opts args project =
     and_then (raise_exception_if_option_missed (opt_output opts) ''output is not set'')
       (\<lambda>output.
     and_then
       (case (if opt_remote opts = Some [] then None else opt_remote opts) of
          None \<Rightarrow> succeed (None, opt_remote opts)
        | Some r \<Rightarrow>
            and_then (getattr_urlparse env urlparse_global) (\<lambda>parse.
              let ulp = parse r in
              if url_path ulp \<noteq> [] then
                let name = strip_chars ''/'' (url_path ulp);
                    remote = url_scheme ulp @ ''://'' @
                               (case url_hostname ulp of None \<Rightarrow> ''None'' | Some h \<Rightarrow> h);
                    remote = (case url_port ulp of
                                None \<Rightarrow> remote
                              | Some n \<Rightarrow> if n \<noteq> 0 then remote @ '':'' @ show_nat n
                                          else remote)
                in succeed (Some name, Some remote)
              else succeed (None, Some r)))
       (\<lambda>(name, remote).
         let format = (case opt_format opts of
                         None \<Rightarrow> None
                       | Some f \<Rightarrow> if f = [] then Some f else Some (lower f))
         in and_then (generate_report env args project
                        (case name of None \<Rightarrow> [] | Some n \<Rightarrow> if n = [] then [] else n)
                        output format (opt_pattern opts) remote (opt_gitiles opts))
              (\<lambda>_. succeed ())))"

section \<open>Reading a run\<close>

text \<open>
  What a document received, read off the recorded calls: its sections in order, each
  with its label, the table specifications handed to \<^verbatim>\<open>table\<close> and the rows written.
\<close>

type_synonym row = "cell list \<times> string list option"

record doc_section =
  sec_label :: string
  sec_tables :: "table_spec list"
  sec_rows :: "row list"

definition on_last :: "('a \<Rightarrow> 'a) \<Rightarrow> 'a list \<Rightarrow> 'a list" where
  "on_last f xs = (if xs = [] then [] else butlast xs @ [f (last xs)])"

fun record_effect :: "string \<Rightarrow> doc_section list \<Rightarrow> effect \<Rightarrow> doc_section list" where
  "record_effect h ss (Section h' l) =
     (if h' = h then ss @ [\<lparr>sec_label = l, sec_tables = [], sec_rows = []\<rparr>] else ss)"
| "record_effect h ss (TableEnter h' spec) =
     (if h' = h then on_last (\<lambda>s. s\<lparr>sec_tables := sec_tables s @ [spec]\<rparr>) ss else ss)"
| "record_effect h ss (Row h' cells csses) =
     (if h' = h then on_last (\<lambda>s. s\<lparr>sec_rows := sec_rows s @ [(cells, csses)]\<rparr>) ss else ss)"
| "record_effect h ss _ = ss"

definition sections_of :: "string \<Rightarrow> effect list \<Rightarrow> doc_section list" where
  "sections_of h out = foldl (record_effect h) [] out"

text \<open>The text a cell shows, and the four texts of a row.\<close>

fun cell_text :: "cell \<Rightarrow> string" where
  "cell_text (Str s) = s"
| "cell_text (Item c link tag) = cell_text c"
| "cell_text (Tuple cs) = concat (map cell_text cs)"

definition row_texts :: "row \<Rightarrow> string list" where
  "row_texts r = map cell_text (fst r)"

definition commit_texts :: "commit \<Rightarrow> string list" where
  "commit_texts = (\<lambda>(sha1, author, committer, subject). [sha1, author, committer, subject])"

text \<open>The paths opened and the paths closed, each in call order.\<close>

fun opened :: "effect list \<Rightarrow> string list" where
  "opened [] = []"
| "opened (Open p n f c # es) = p # opened es"
| "opened (e # es) = opened es"

fun closed :: "effect list \<Rightarrow> string list" where
  "closed [] = []"
| "closed (Close p # es) = p # closed es"
| "closed (e # es) = closed es"

text \<open>The range expressions of the hash-list queries, in call order.\<close>

fun range_queries :: "effect list \<Rightarrow> string list" where
  "range_queries [] = []"
| "range_queries (Log fmt rng # es) =
     (if fmt = ''--format='' @ [dquote] @ ''%H'' then rng # range_queries es
      else range_queries es)"
| "range_queries (e # es) = range_queries es"

definition no_io_failure :: "env \<Rightarrow> bool" where
  "no_io_failure env = (\<forall>e. \<not> io_fails env e)"

section \<open>Auxiliary notions\<close>

subsection \<open>The records of one range\<close>

text \<open>
  What \<^verbatim>\<open>extract_range\<close> appends for one range: the records it returns when it
  starts from the empty list.
\<close>

definition extracted :: "git_project \<Rightarrow> string \<Rightarrow> string \<Rightarrow> commit list" where
  "extracted project ref erefs =
     (case fst (extract_range project ref erefs []) of Inr cs \<Rightarrow> cs | Inl e \<Rightarrow> [])"

subsection \<open>Rows and sections in closed form\<close>

text \<open>
  The rows the report blocks write, as lists: the text rows of a list of records, the
  records the pattern accepts, the sha1 cell of an HTML row (with the separator of its
  query link as a parameter), the HTML rows, and the calls of one section.
\<close>

definition text_rows :: "commit list \<Rightarrow> row list" where
  "text_rows logs =
     map (\<lambda>(sha1, author, committer, subject).
            ([Str sha1, Str author, Str committer, Str subject], None)) logs"

definition matching :: "env \<Rightarrow> pattern \<Rightarrow> commit list \<Rightarrow> commit list" where
  "matching env pattern logs =
     filter (\<lambda>(sha1, author, committer, subject).
               pattern_match env pattern ''e,email'' committer) logs"

definition sha1_cell :: "string \<Rightarrow> string \<Rightarrow> string option \<Rightarrow> bool \<Rightarrow> string \<Rightarrow> cell" where
  "sha1_cell query name remote gitiles sha1 =
     (case (if remote = Some [] then None else remote) of
        None \<Rightarrow> Str sha1
      | Some r \<Rightarrow>
          if gitiles \<and> name \<noteq> [] then
            Item (Tuple [Item (Str (take 20 sha1)) (Some (r @ query @ sha1)) None,
                         Item (Str (drop 20 sha1))
                           (Some (r @ ''/plugins/gitiles/'' @ name @ ''/+/'' @ sha1 @ ''^!''))
                           None]) None (Some ''pre'')
          else Item (Str sha1) (Some (r @ query @ sha1)) (Some ''pre''))"

definition html_rows ::
  "string \<Rightarrow> string list option \<Rightarrow> string \<Rightarrow> string option \<Rightarrow> bool \<Rightarrow> commit list \<Rightarrow> row list" where
  "html_rows query csses name remote gitiles logs =
     map (\<lambda>(sha1, author, committer, subject).
            ([sha1_cell query name remote gitiles sha1, mailto author, mailto committer,
              Str subject], csses)) logs"

definition block :: "string \<Rightarrow> string \<Rightarrow> table_spec \<Rightarrow> row list \<Rightarrow> effect list" where
  "block h refs spec rows =
     [Section h refs, TableEnter h spec] @ map (\<lambda>(cells, csses). Row h cells csses) rows @
     [TableExit h]"

subsection \<open>Kinds of calls\<close>

text \<open>
  A run emits only calls of a given kind when every recorded call satisfies the
  predicate.
\<close>

definition emits :: "(effect \<Rightarrow> bool) \<Rightarrow> 'a run \<Rightarrow> bool" where
  "emits P m = list_all P (snd m)"

fun is_git :: "effect \<Rightarrow> bool" where
  "is_git (Print s) = True"
| "is_git (RevParse r) = True"
| "is_git (RevList opt r) = True"
| "is_git (Log fmt rng) = True"
| "is_git e = False"

fun is_write :: "effect \<Rightarrow> bool" where
  "is_write (Section h l) = True"
| "is_write (TableEnter h spec) = True"
| "is_write (Row h cells csses) = True"
| "is_write (TableExit h) = True"
| "is_write e = False"

fun is_open :: "effect \<Rightarrow> bool" where
  "is_open (Open p n f c) = True"
| "is_open (MakeDirs p) = True"
| "is_open e = False"

fun is_close :: "effect \<Rightarrow> bool" where
  "is_close (Close p) = True"
| "is_close e = False"

fun is_resolve :: "effect \<Rightarrow> bool" where
  "is_resolve (Print s) = True"
| "is_resolve (RevParse r) = True"
| "is_resolve (RevList opt r) = True"
| "is_resolve e = False"

fun is_field_query :: "effect \<Rightarrow> bool" where
  "is_field_query (Log fmt rng) = (fmt \<in> {''--format=%ae'', ''--format=%ce'', ''--format=%s''})"
| "is_field_query e = False"

subsection \<open>The documents of a run\<close>

text \<open>
  The handles in opening order and in closing order, the documents a format and a
  pattern open, the label of a range, the value of \<open>logs\<close> after each range, and
  the sections a handle receives from one range and from the whole loop.
\<close>

definition handles :: "documents \<Rightarrow> string list" where
  "handles docs =
     concat (map (\<lambda>f. case f of None \<Rightarrow> [] | Some p \<Rightarrow> [p])
               [ftext docs, ftextp docs, fhtml docs, fhtmlp docs])"

definition close_order :: "documents \<Rightarrow> string list" where
  "close_order docs =
     concat (map (\<lambda>f. case f of None \<Rightarrow> [] | Some p \<Rightarrow> [p])
               [ftextp docs, fhtmlp docs, ftext docs, fhtml docs])"

definition opens_text :: "string option \<Rightarrow> bool" where
  "opens_text format = (case format of None \<Rightarrow> False | Some fmt \<Rightarrow> fmt \<in> {''all'', ''text''})"

definition opens_html :: "string option \<Rightarrow> bool" where
  "opens_html format = (case format of None \<Rightarrow> False | Some fmt \<Rightarrow> fmt \<in> {''all'', ''html''})"

definition documents_for :: "string \<Rightarrow> string option \<Rightarrow> pattern \<Rightarrow> documents" where
  "documents_for output format pattern =
     \<lparr>ftext = (if opens_text format then Some (path_join output REPORT_TEXT) else None),
      fhtml = (if opens_html format then Some (path_join output REPORT_HTML) else None),
      ftextp = (if opens_text format \<and> pattern_truthy pattern
                then Some (path_join output FILTER_TEXT) else None),
      fhtmlp = (if opens_html format \<and> pattern_truthy pattern
                then Some (path_join output FILTER_HTML) else None)\<rparr>"

definition range_label :: "string list \<Rightarrow> string list \<Rightarrow> string \<Rightarrow> string \<Rightarrow> string" where
  "range_label args brefs erefs ref =
     (if length brefs > 0 \<and> length args > 1 then ref @ ''..'' @ erefs else erefs)"

fun cumulative :: "('a \<Rightarrow> 'b list) \<Rightarrow> 'a list \<Rightarrow> 'b list \<Rightarrow> 'b list list" where
  "cumulative ex [] logs = []"
| "cumulative ex (r # rs) logs = (logs @ ex r) # cumulative ex rs (logs @ ex r)"

definition step_sections ::
  "env \<Rightarrow> documents \<Rightarrow> pattern \<Rightarrow> string \<Rightarrow> string option \<Rightarrow> bool \<Rightarrow> string \<Rightarrow> string \<Rightarrow>
   commit list \<Rightarrow> doc_section list" where
  "step_sections env docs pattern name remote gitiles h refs logs =
     (if ftext docs = Some h then
        [\<lparr>sec_label = refs, sec_tables = [Widths (column_widths logs)],
          sec_rows = text_rows logs\<rparr>]
      else if ftextp docs = Some h \<and> ftext docs \<noteq> None then
        [\<lparr>sec_label = refs, sec_tables = [Widths (column_widths logs)],
          sec_rows = text_rows (matching env pattern logs)\<rparr>]
      else if fhtml docs = Some h then
        [\<lparr>sec_label = refs, sec_tables = [Css ''hoverTable''],
          sec_rows = html_rows ''#/q/'' (Some TABLE_CSS) name remote gitiles logs\<rparr>]
      else if fhtmlp docs = Some h \<and> fhtml docs \<noteq> None then
        [\<lparr>sec_label = refs, sec_tables = [Css ''hoverTable''],
          sec_rows = html_rows ''#q,'' None name remote gitiles (matching env pattern logs)\<rparr>]
      else [])"

definition run_sections ::
  "env \<Rightarrow> string list \<Rightarrow> git_project \<Rightarrow> string \<Rightarrow> string \<Rightarrow> string option \<Rightarrow>
   string list option \<Rightarrow> string option \<Rightarrow> bool \<Rightarrow> string list \<Rightarrow> string \<Rightarrow> string \<Rightarrow>
   doc_section list" where
  "run_sections env args project name output format patterns remote gitiles brefs erefs h =
     concat (map (\<lambda>(r, l). step_sections env
                    (documents_for output format (build_pattern patterns))
                    (build_pattern patterns) name remote gitiles h
                    (range_label args brefs erefs r) l)
               (zip brefs (cumulative (\<lambda>r. extracted project r erefs) brefs [])))"

subsection \<open>Runs that return\<close>

text \<open>
  The environment in which no call raises, and the relation between a run and the run
  it equals whenever it returns a value.
\<close>

definition calm :: "env \<Rightarrow> env" where
  "calm env = env\<lparr>io_fails := (\<lambda>e. False)\<rparr>"

definition settles :: "'a run \<Rightarrow> 'a run \<Rightarrow> bool" where
  "settles m m0 = (\<forall>x. fst m = Inr x \<longrightarrow> m = m0)"

subsection \<open>Example inputs\<close>

text \<open>
  A small repository: \<^verbatim>\<open>HEAD\<close> resolves to \<open>h\<close>, \<open>A\<close> to \<open>a\<close>, and
  \<open>B\<close> only through the remote name; two root commits; two commits with 40-digit
  hashes.  The example pattern matches a committer address listed as an
  \<^verbatim>\<open>email:\<close> token.
\<close>

definition example_project :: git_project where
  "example_project =
     \<lparr>rev_parse = (\<lambda>r. if r = ''HEAD'' then (0, ''h'')
                        else if r = ''A'' then (0, ''a'')
                        else if r = ''origin/B'' then (0, ''b'')
                        else (1, '''')),
      rev_list = (\<lambda>opt r. (0, ''r1'' @ [newline] @ ''r2'')),
      log = (\<lambda>fmt rng.
               if fmt = ''--format='' @ [dquote] @ ''%H'' then
                 (if rng = ''r1..h'' then (0, [dquote] @ ''1111111111111111111122222222222222222222'')
                  else if rng = ''r2..h'' then (0, [dquote] @ ''aaaaaaaaaaaaaaaaaaaabbbbbbbbbbbbbbbbbbbb'')
                  else if rng = ''a..b'' then
                    (0, [dquote] @ ''aaaaaaaaaaaaaaaaaaaabbbbbbbbbbbbbbbbbbbb'' @ [newline, dquote] @
                        ''1111111111111111111122222222222222222222'' @ [newline])
                  else (1, ''''))
               else if fmt = ''--format=%ae'' then (0, ''ann@x.org '')
               else if fmt = ''--format=%ce'' then
                 (if rng = ''1111111111111111111122222222222222222222^..'' @
                            ''1111111111111111111122222222222222222222''
                  then (0, ''bob@x.org'') else (0, ''eve@y.org''))
               else (0, ''fix'')),
      project_remote = ''origin''\<rparr>"

definition example_env :: env where
  "example_env =
     \<lparr>path_exists = (\<lambda>p. True),
      pattern_match = (\<lambda>pat aliases v.
                         case pat of PatternEmpty \<Rightarrow> True
                                   | Pattern ps \<Rightarrow> (''email:'' @ v) \<in> set ps),
      io_fails = (\<lambda>e. False),
      url_parser = (\<lambda>u. \<lparr>url_scheme = ''https'', url_hostname = Some ''review.example.com'',
                           url_port = None, url_path = ''/myproj''\<rparr>)\<rparr>"

definition example_roots :: git_project where
  "example_roots = example_project\<lparr>rev_list := (\<lambda>opt r. (0, ''r0'' @ [newline] @ ''r1''))\<rparr>"

definition example_single_root :: git_project where
  "example_single_root = example_project\<lparr>rev_list := (\<lambda>opt r. (0, ''r1''))\<rparr>"

definition example_failing_env :: env where
  "example_failing_env =
     example_env\<lparr>io_fails := (\<lambda>e. case e of Row h cells csses \<Rightarrow> True | _ \<Rightarrow> False)\<rparr>"

definition example_options :: options where
  "example_options =
     \<lparr>opt_remote = Some ''https://review.example.com/myproj'', opt_output = Some ''out'',
      opt_gitiles = True, opt_format = Some ''html'', opt_pattern = None\<rparr>"

section \<open>Laws of the run type\<close>

lemma and_then_succeed [simp]: "and_then (succeed x) f = f x"
  by (simp add: and_then_def succeed_def split: prod.splits)

lemma and_then_raise [simp]: "and_then (raise e) f = raise e"
  by (simp add: and_then_def raise_def)

lemma and_then_Inr [simp]: "and_then (Inr x, out) f = (fst (f x), out @ snd (f x))"
  by (simp add: and_then_def split: prod.splits)

lemma and_then_Inl [simp]: "and_then (Inl e, out) f = (Inl e, out)"
  by (simp add: and_then_def)

section \<open>Pattern tokens\<close>

lemma find_from_ge: "c \<in> set xs \<Longrightarrow> j \<le> find_from c xs j"
proof (induction xs arbitrary: j)
  case Nil
  then show ?case by simp
next
  case (Cons x xs)
  show ?case
  proof (cases "x = c")
    case True
    then show ?thesis by simp
  next
    case False
    with Cons.prems have "c \<in> set xs" by simp
    from Cons.IH [OF this, of "j + 1"] False show ?thesis by simp
  qed
qed

lemma find_from_absent: "c \<notin> set xs \<Longrightarrow> find_from c xs j = - 1"
  by (induction xs arbitrary: j) auto

lemma str_find_pos: "(0 < str_find s c) = (c \<in> set s \<and> hd s \<noteq> c)"
proof (cases s)
  case Nil
  then show ?thesis by (simp add: str_find_def)
next
  case (Cons x xs)
  show ?thesis
  proof (cases "x = c")
    case True
    with Cons show ?thesis by (simp add: str_find_def)
  next
    case False
    show ?thesis
    proof (cases "c \<in> set xs")
      case True
      from find_from_ge [OF True, of 1] False Cons True show ?thesis
        by (simp add: str_find_def)
    next
      case no: False
      with False Cons show ?thesis by (simp add: str_find_def find_from_absent)
    qed
  qed
qed

lemma foldl_snoc_map: "foldl (\<lambda>acc x. acc @ [g x]) acc xs = acc @ map g xs"
  by (induction xs arbitrary: acc) simp_all

lemma build_pattern_map:
  "build_pattern (Some ps) =
     (if ps = [] then PatternEmpty
      else Pattern (map (\<lambda>pat. if 0 < str_find pat (CHR '':'') then pat else ''email:'' @ pat) ps))"
proof -
  have "(\<lambda>pats pat. if 0 < str_find pat (CHR '':'') then pats @ [pat] else pats @ [''email:'' @ pat])
       = (\<lambda>pats pat. pats @ [if 0 < str_find pat (CHR '':'') then pat else ''email:'' @ pat])"
    by (intro ext) simp
  then show ?thesis
    by (simp add: build_pattern_def foldl_snoc_map)
qed

text \<open>
  C4, as the code has it.  A token is kept verbatim exactly when its first colon lies
  after its first character (\<^verbatim>\<open>pat.find(':') > 0\<close>); every other token, without a
  colon or with a leading colon, becomes \<^verbatim>\<open>email:<token>\<close>.  Consequently a
  single rewritten token \<open>t\<close> builds the same pattern as \<^verbatim>\<open>email:<t>\<close>.
\<close>

theorem build_pattern_tokens:
  "(ps \<noteq> [] \<longrightarrow>
      build_pattern (Some ps) =
        Pattern (map (\<lambda>pat. if CHR '':'' \<in> set pat \<and> hd pat \<noteq> CHR '':'' then pat
                             else ''email:'' @ pat) ps)) \<and>
   (\<not> (CHR '':'' \<in> set t \<and> hd t \<noteq> CHR '':'') \<longrightarrow>
      build_pattern (Some [t]) = build_pattern (Some [''email:'' @ t]))"
  by (simp add: build_pattern_map str_find_pos)

theorem build_pattern_tokens_witness:
  "build_pattern (Some [''a:b'', ''c'', '':d'']) = Pattern [''a:b'', ''email:c'', ''email::d''] \<and>
   build_pattern (Some [''alice@x.com'']) = build_pattern (Some [''email:alice@x.com''])"
  using build_pattern_tokens [of "[''a:b'', ''c'', '':d'']" "''alice@x.com''"]
  by simp

text \<open>
  C4 as stated fails: the token \<^verbatim>\<open>:x\<close> contains a colon and is not kept verbatim.
\<close>

theorem build_pattern_leading_colon_counterexample:
  "CHR '':'' \<in> set '':x'' \<and> build_pattern (Some ['':x'']) \<noteq> Pattern ['':x'']"
  by (simp add: build_pattern_def str_find_def)

section \<open>Revision resolution: the two attempts\<close>

lemma secure_sha_run:
  "secure_sha gitp refs =
     (if fst (rev_parse gitp refs) = 0
      then (Inr (snd (rev_parse gitp refs)), [RevParse refs])
      else if fst (rev_parse gitp (project_remote gitp @ ''/'' @ refs)) = 0
      then (Inr (snd (rev_parse gitp (project_remote gitp @ ''/'' @ refs))),
            [RevParse refs, RevParse (project_remote gitp @ ''/'' @ refs)])
      else (Inl (RevisionError (''Unknown '' @ refs)),
            [RevParse refs, RevParse (project_remote gitp @ ''/'' @ refs)]))"
  by (simp add: secure_sha_def git_rev_parse_def succeed_def raise_def split: prod.splits)

text \<open>
  C3.  Resolution first asks for the reference itself.  When that succeeds its answer is
  returned and it is the only query made.  Otherwise the remote-qualified name
  \<^verbatim>\<open><remote>/<ref>\<close> is asked for; its answer is returned on success, and
  \<open>RevisionError\<close> is raised exactly when both queries return a nonzero status.
\<close>

theorem secure_sha_attempts:
  "secure_sha gitp refs =
     (if fst (rev_parse gitp refs) = 0
      then (Inr (snd (rev_parse gitp refs)), [RevParse refs])
      else if fst (rev_parse gitp (project_remote gitp @ ''/'' @ refs)) = 0
      then (Inr (snd (rev_parse gitp (project_remote gitp @ ''/'' @ refs))),
            [RevParse refs, RevParse (project_remote gitp @ ''/'' @ refs)])
      else (Inl (RevisionError (''Unknown '' @ refs)),
            [RevParse refs, RevParse (project_remote gitp @ ''/'' @ refs)])) \<and>
   ((\<exists>e. fst (secure_sha gitp refs) = Inl e) =
      (fst (rev_parse gitp refs) \<noteq> 0 \<and>
       fst (rev_parse gitp (project_remote gitp @ ''/'' @ refs)) \<noteq> 0))"
  by (simp add: secure_sha_run)

section \<open>Runs without input/output failure\<close>

lemma io_op_ok: "no_io_failure env \<Longrightarrow> io_op env e = (Inr (), [e])"
  by (simp add: io_op_def no_io_failure_def)

lemma for_each_outputs:
  "(\<And>x. x \<in> set xs \<Longrightarrow> f x = (Inr (), g x)) \<Longrightarrow> for_each xs f = (Inr (), concat (map g xs))"
  by (induction xs) (simp_all add: succeed_def)

lemma with_table_ok:
  "no_io_failure env \<Longrightarrow>
   with_table env h spec (Inr (), out) = (Inr (), TableEnter h spec # out @ [TableExit h])"
  by (simp add: with_table_def io_op_ok)

lemma field_query_run:
  "field_query project item sha1 =
     (Inr (strip (strip_chars [dquote] (snd (log project (''--format='' @ item) (sha1 @ ''^..'' @ sha1))))),
      [Log (''--format='' @ item) (sha1 @ ''^..'' @ sha1)])"
  by (simp add: field_query_def git_log_def succeed_def case_prod_beta)

lemma for_acc_appends:
  assumes "\<And>x s. f x s = (Inr (s @ g x), q x)"
  shows "for_acc xs s f = (Inr (s @ concat (map g xs)), concat (map q xs))"
  using assms by (induction xs arbitrary: s) (simp_all add: succeed_def)

lemma extract_range_shape:
  "\<exists>cs out. \<forall>logs. extract_range project ref erefs logs = (Inr (logs @ cs), out)"
proof (cases "fst (log project (''--format='' @ [dquote] @ ''%H'') (ref @ ''..'' @ erefs)) = 0")
  case False
  then have "\<forall>logs. extract_range project ref erefs logs =
      (Inr (logs @ []), [Log (''--format='' @ [dquote] @ ''%H'') (ref @ ''..'' @ erefs)])"
    by (simp add: extract_range_def git_log_def succeed_def case_prod_beta)
  then show ?thesis by blast
next
  case True
  let ?body = "\<lambda>sha1 logs.
             let sha1 = strip_chars [dquote] sha1 in
             if sha1 = [] then succeed logs
             else
               and_then (field_query project ''%ae'' sha1) (\<lambda>author.
               and_then (field_query project ''%ce'' sha1) (\<lambda>committer.
               and_then (field_query project ''%s'' sha1) (\<lambda>subject.
                 succeed (logs @ [(sha1, author, committer, subject)]))))"
  have "\<exists>g q. \<forall>x s. ?body x s = (Inr (s @ g x), q x)"
    apply (rule exI [of _ "\<lambda>x. case fst (?body x []) of Inr cs \<Rightarrow> cs | Inl e \<Rightarrow> []"])
    apply (rule exI [of _ "\<lambda>x. snd (?body x [])"])
    apply (simp add: Let_def field_query_run succeed_def)
    done
  then obtain g q where b: "\<And>x s. ?body x s = (Inr (s @ g x), q x)" by blast
  have "\<forall>logs. extract_range project ref erefs logs =
      (Inr (logs @ concat (map g (split_on newline (snd (log project (''--format='' @ [dquote] @ ''%H'') (ref @ ''..'' @ erefs)))))),
       Log (''--format='' @ [dquote] @ ''%H'') (ref @ ''..'' @ erefs) #
       concat (map q (split_on newline (snd (log project (''--format='' @ [dquote] @ ''%H'') (ref @ ''..'' @ erefs))))))"
    using True
    by (simp add: extract_range_def git_log_def case_prod_beta for_acc_appends [of ?body g q, OF b])
  then show ?thesis by blast
qed

lemma extract_range_run:
  "extract_range project ref erefs logs =
     (Inr (logs @ extracted project ref erefs), snd (extract_range project ref erefs []))"
proof -
  obtain cs out where *: "\<And>logs. extract_range project ref erefs logs = (Inr (logs @ cs), out)"
    using extract_range_shape by blast
  show ?thesis by (simp add: * extracted_def)
qed

lemma text_rows_run:
  "no_io_failure env \<Longrightarrow>
   for_each logs (\<lambda>(sha1, author, committer, subject).
      io_op env (Row h [Str sha1, Str author, Str committer, Str subject] None)) =
   (Inr (), map (\<lambda>(cells, csses). Row h cells csses) (text_rows logs))"
  by (induction logs) (simp_all add: succeed_def io_op_ok text_rows_def case_prod_beta)

lemma text_rows_filtered_run:
  "no_io_failure env \<Longrightarrow>
   for_each logs (\<lambda>(sha1, author, committer, subject).
      if pattern_match env pattern ''e,email'' committer then
        io_op env (Row h [Str sha1, Str author, Str committer, Str subject] None)
      else succeed ()) =
   (Inr (), map (\<lambda>(cells, csses). Row h cells csses) (text_rows (matching env pattern logs)))"
  by (induction logs)
     (simp_all add: succeed_def io_op_ok text_rows_def matching_def case_prod_beta)

lemma html_row_run:
  "no_io_failure env \<Longrightarrow>
   html_row env fh name remote gitiles c =
   (Inr (), map (\<lambda>(cells, csses). Row fh cells csses)
              (html_rows ''#/q/'' (Some TABLE_CSS) name remote gitiles [c]))"
  by (cases c)
     (auto simp add: html_row_def html_rows_def sha1_cell_def io_op_ok Let_def
        split: option.splits)

lemma html_row_filtered_run:
  "no_io_failure env \<Longrightarrow>
   html_row_filtered env fhp pattern name remote gitiles c =
   (Inr (), map (\<lambda>(cells, csses). Row fhp cells csses)
              (html_rows ''#q,'' None name remote gitiles (matching env pattern [c])))"
  by (cases c)
     (auto simp add: html_row_filtered_def html_rows_def sha1_cell_def io_op_ok Let_def
        succeed_def matching_def split: option.splits)

lemma html_rows_append:
  "html_rows q cs name remote gitiles (xs @ ys) =
   html_rows q cs name remote gitiles xs @ html_rows q cs name remote gitiles ys"
  by (simp add: html_rows_def)

lemma matching_Cons: "matching env pattern (c # cs) = matching env pattern [c] @ matching env pattern cs"
  by (simp add: matching_def)

lemma html_rows_run:
  "no_io_failure env \<Longrightarrow>
   for_each logs (html_row env fh name remote gitiles) =
   (Inr (), map (\<lambda>(cells, csses). Row fh cells csses)
              (html_rows ''#/q/'' (Some TABLE_CSS) name remote gitiles logs))"
proof (induction logs)
  case Nil
  then show ?case by (simp add: succeed_def html_rows_def)
next
  case (Cons c cs)
  have "html_rows ''#/q/'' (Some TABLE_CSS) name remote gitiles (c # cs) =
        html_rows ''#/q/'' (Some TABLE_CSS) name remote gitiles [c] @
        html_rows ''#/q/'' (Some TABLE_CSS) name remote gitiles cs"
    using html_rows_append [of _ _ _ _ _ "[c]" cs] by simp
  with Cons show ?case by (simp add: html_row_run)
qed

lemma html_rows_filtered_run:
  "no_io_failure env \<Longrightarrow>
   for_each logs (html_row_filtered env fhp pattern name remote gitiles) =
   (Inr (), map (\<lambda>(cells, csses). Row fhp cells csses)
              (html_rows ''#q,'' None name remote gitiles (matching env pattern logs)))"
proof (induction logs)
  case Nil
  then show ?case by (simp add: succeed_def html_rows_def matching_def)
next
  case (Cons c cs)
  have "html_rows ''#q,'' None name remote gitiles (matching env pattern (c # cs)) =
        html_rows ''#q,'' None name remote gitiles (matching env pattern [c]) @
        html_rows ''#q,'' None name remote gitiles (matching env pattern cs)"
    using matching_Cons [of env pattern c cs] by (simp add: html_rows_append)
  with Cons show ?case by (simp add: html_row_filtered_run)
qed

lemma report_text_run:
  assumes nf: "no_io_failure env"
  shows "report_text env docs pattern refs logs =
   (Inr (),
    (case ftext docs of
       None \<Rightarrow> []
     | Some ft \<Rightarrow>
         block ft refs (Widths (column_widths logs)) (text_rows logs) @
         (case ftextp docs of
            None \<Rightarrow> []
          | Some ftp \<Rightarrow>
              block ftp refs (Widths (column_widths logs))
                (text_rows (matching env pattern logs)))))"
  unfolding report_text_def Let_def text_rows_run [OF nf] text_rows_filtered_run [OF nf]
  by (simp add: io_op_ok [OF nf] with_table_ok [OF nf] block_def succeed_def
      split: option.splits)

lemma report_html_run:
  assumes nf: "no_io_failure env"
  shows "report_html env docs pattern name remote gitiles refs logs =
   (Inr (),
    (case fhtml docs of
       None \<Rightarrow> []
     | Some fh \<Rightarrow>
         block fh refs (Css ''hoverTable'')
           (html_rows ''#/q/'' (Some TABLE_CSS) name remote gitiles logs) @
         (case fhtmlp docs of
            None \<Rightarrow> []
          | Some fhp \<Rightarrow>
              block fhp refs (Css ''hoverTable'')
                (html_rows ''#q,'' None name remote gitiles (matching env pattern logs)))))"
  unfolding report_html_def html_rows_run [OF nf] html_rows_filtered_run [OF nf]
  by (simp add: io_op_ok [OF nf] with_table_ok [OF nf] block_def succeed_def
      split: option.splits)

section \<open>What each block emits\<close>

lemma emits_succeed: "emits P (succeed x)"
  by (simp add: emits_def succeed_def)

lemma emits_raise: "emits P (raise e)"
  by (simp add: emits_def raise_def)

lemma emits_and_then:
  "emits P m \<Longrightarrow> (\<And>x. emits P (f x)) \<Longrightarrow> emits P (and_then m f)"
proof (cases m)
  case (Pair r out)
  assume m: "emits P m" and f: "\<And>x. emits P (f x)"
  show ?thesis
  proof (cases r)
    case (Inl e)
    with Pair m show ?thesis by (simp add: emits_def)
  next
    case (Inr x)
    with Pair m f [of x] show ?thesis by (simp add: emits_def)
  qed
qed

lemma emits_io_op: "P e \<Longrightarrow> emits P (io_op env e)"
  by (simp add: io_op_def emits_def)

lemma emits_if: "(c \<Longrightarrow> emits P a) \<Longrightarrow> (\<not> c \<Longrightarrow> emits P b) \<Longrightarrow> emits P (if c then a else b)"
  by simp

lemma emits_case_prod: "(\<And>a b. emits P (f a b)) \<Longrightarrow> emits P (case x of (a, b) \<Rightarrow> f a b)"
  by (cases x) simp

lemma emits_case_option:
  "(x = None \<Longrightarrow> emits P a) \<Longrightarrow> (\<And>v. x = Some v \<Longrightarrow> emits P (f v)) \<Longrightarrow>
   emits P (case x of None \<Rightarrow> a | Some v \<Rightarrow> f v)"
  by (cases x) simp_all

lemma emits_for_each: "(\<And>x. emits P (f x)) \<Longrightarrow> emits P (for_each xs f)"
  by (induction xs) (simp_all add: emits_and_then emits_succeed)

lemma emits_for_acc: "(\<And>x s. emits P (f x s)) \<Longrightarrow> emits P (for_acc xs s f)"
  by (induction xs arbitrary: s) (simp_all add: emits_and_then emits_succeed)

lemma emits_with_table:
  assumes "P (TableEnter h spec)" and "P (TableExit h)" and "emits P body"
  shows "emits P (with_table env h spec body)"
proof -
  have "emits P (case body of (r, out) \<Rightarrow>
         (case io_op env (TableExit h) of
            (Inl e, out') \<Rightarrow> (Inl e, out @ out')
          | (Inr _, out') \<Rightarrow> (r, out @ out')))"
    using assms(2,3) by (cases body) (simp add: emits_def io_op_def)
  then show ?thesis
    unfolding with_table_def by (intro emits_and_then emits_io_op assms(1))
qed

lemma emits_mono: "emits P m \<Longrightarrow> (\<And>e. P e \<Longrightarrow> Q e) \<Longrightarrow> emits Q m"
  by (auto simp: emits_def list_all_iff)

lemma emits_print: "emits is_git (print s)"
  by (simp add: print_def emits_def)

lemma emits_git_rev_list: "emits is_git (git_rev_list gitp opt refs)"
  by (simp add: git_rev_list_def emits_def)

lemma emits_git_log: "emits is_git (git_log gitp fmt rng)"
  by (simp add: git_log_def emits_def)

lemma emits_secure_sha: "emits is_git (secure_sha gitp refs)"
  by (simp add: secure_sha_run emits_def)

lemmas emits_intros =
  emits_and_then emits_succeed emits_raise emits_if emits_case_prod emits_case_option
  emits_for_each emits_for_acc emits_with_table emits_io_op

lemma emits_resolve_ranges: "emits is_git (resolve_ranges project args)"
  unfolding resolve_ranges_def
  by (intro emits_intros emits_print emits_git_rev_list emits_secure_sha)

lemma emits_field_query: "emits is_git (field_query project item sha1)"
  by (simp add: field_query_run emits_def)

lemma emits_extract_range: "emits is_git (extract_range project ref erefs logs)"
  unfolding extract_range_def Let_def
  by (intro emits_intros emits_git_log emits_field_query)

lemma emits_open_file: "emits is_open (open_file env p name fmt css)"
  unfolding open_file_def by (intro emits_intros) simp

lemma emits_open_documents: "emits is_open (open_documents env name output format pattern)"
  unfolding open_documents_def ensure_output_def open_text_documents_def
    open_html_documents_def
  by (intro emits_intros emits_open_file) simp

lemma emits_close_file: "emits is_close (close_file env f)"
  unfolding close_file_def by (intro emits_intros) simp

lemma emits_close_documents: "emits is_close (close_documents env docs)"
  unfolding close_documents_def
  by (intro emits_and_then emits_close_file)

lemma emits_report_text: "emits is_write (report_text env docs pattern refs logs)"
  unfolding report_text_def Let_def
  by (intro emits_intros) simp_all

lemma emits_html_row: "emits is_write (html_row env fh name remote gitiles c)"
  unfolding html_row_def Let_def
  by (intro emits_intros) simp_all

lemma emits_html_row_filtered:
  "emits is_write (html_row_filtered env fhp pattern name remote gitiles c)"
  unfolding html_row_filtered_def Let_def
  by (intro emits_intros) simp_all

lemma emits_report_html:
  "emits is_write (report_html env docs pattern name remote gitiles refs logs)"
  unfolding report_html_def
  by (intro emits_intros emits_html_row emits_html_row_filtered) simp_all

lemma emits_range_step:
  "emits (\<lambda>e. is_git e \<or> is_write e)
     (range_step env project args brefs erefs docs pattern name remote gitiles ref logs)"
  unfolding range_step_def Let_def
  by (intro emits_and_then emits_succeed
        emits_mono [OF emits_extract_range] emits_mono [OF emits_report_text]
        emits_mono [OF emits_report_html]) simp_all

section \<open>Sections received by a document\<close>

lemma length_cumulative [simp]: "length (cumulative ex rs logs) = length rs"
  by (induction rs arbitrary: logs) simp_all

lemma nth_cumulative:
  "k < length rs \<Longrightarrow> cumulative ex rs logs ! k = logs @ concat (map ex (take (Suc k) rs))"
proof (induction rs arbitrary: k logs)
  case Nil
  then show ?case by simp
next
  case (Cons r rs)
  show ?case
  proof (cases k)
    case 0
    then show ?thesis by simp
  next
    case (Suc j)
    with Cons.prems have "j < length rs" by simp
    from Cons.IH [OF this, of "logs @ ex r"] Suc show ?thesis by simp
  qed
qed

lemma fold_quiet:
  "list_all (\<lambda>e. is_git e \<or> is_open e \<or> is_close e) out \<Longrightarrow>
   foldl (record_effect h) ss out = ss"
proof (induction out arbitrary: ss)
  case Nil
  then show ?case by simp
next
  case (Cons e out)
  then have "record_effect h ss e = ss" by (cases e) simp_all
  with Cons show ?case by simp
qed

lemma fold_rows_same:
  "foldl (record_effect h) (ss @ [s]) (map (\<lambda>(cells, csses). Row h cells csses) rows) =
   ss @ [s\<lparr>sec_rows := sec_rows s @ rows\<rparr>]"
proof (induction rows arbitrary: s)
  case Nil
  then show ?case by simp
next
  case (Cons r rows)
  obtain cells csses where r: "r = (cells, csses)" by (cases r)
  show ?case
    using Cons [of "s\<lparr>sec_rows := sec_rows s @ [r]\<rparr>"]
    by (simp add: r on_last_def)
qed

lemma fold_rows_other:
  "h' \<noteq> h \<Longrightarrow>
   foldl (record_effect h) ss (map (\<lambda>(cells, csses). Row h' cells csses) rows) = ss"
  by (induction rows) (simp_all add: case_prod_beta)

lemma fold_block:
  "foldl (record_effect h) ss (block h' refs spec rows) =
     (if h' = h then ss @ [\<lparr>sec_label = refs, sec_tables = [spec], sec_rows = rows\<rparr>] else ss)"
proof (cases "h' = h")
  case True
  have "foldl (record_effect h) ss (block h refs spec rows) =
        foldl (record_effect h)
          (foldl (record_effect h) (ss @ [\<lparr>sec_label = refs, sec_tables = [spec], sec_rows = []\<rparr>])
             (map (\<lambda>(cells, csses). Row h cells csses) rows)) [TableExit h]"
    by (simp add: block_def on_last_def)
  also have "\<dots> = ss @ [\<lparr>sec_label = refs, sec_tables = [spec], sec_rows = rows\<rparr>]"
    by (simp add: fold_rows_same)
  finally show ?thesis using True by simp
next
  case False
  then show ?thesis by (simp add: block_def fold_rows_other)
qed

lemma range_step_run:
  assumes nf: "no_io_failure env"
  shows "range_step env project args brefs erefs docs pattern name remote gitiles ref logs =
     (Inr (logs @ extracted project ref erefs),
      snd (extract_range project ref erefs []) @
      snd (report_text env docs pattern (range_label args brefs erefs ref)
             (logs @ extracted project ref erefs)) @
      snd (report_html env docs pattern name remote gitiles (range_label args brefs erefs ref)
             (logs @ extracted project ref erefs)))"
  unfolding range_step_def Let_def range_label_def [symmetric]
  by (subst extract_range_run)
     (simp add: report_text_run [OF nf] report_html_run [OF nf] succeed_def)

lemma fold_report_text:
  assumes nf: "no_io_failure env" and d: "distinct (handles docs)"
  shows "foldl (record_effect h) ss (snd (report_text env docs pattern refs logs)) =
     ss @ (if ftext docs = Some h then
             [\<lparr>sec_label = refs, sec_tables = [Widths (column_widths logs)],
               sec_rows = text_rows logs\<rparr>]
           else if ftextp docs = Some h \<and> ftext docs \<noteq> None then
             [\<lparr>sec_label = refs, sec_tables = [Widths (column_widths logs)],
               sec_rows = text_rows (matching env pattern logs)\<rparr>]
           else [])"
  using d
  by (auto simp add: report_text_run [OF nf] fold_block handles_def split: option.splits)

lemma fold_report_html:
  assumes nf: "no_io_failure env" and d: "distinct (handles docs)"
  shows "foldl (record_effect h) ss
           (snd (report_html env docs pattern name remote gitiles refs logs)) =
     ss @ (if fhtml docs = Some h then
             [\<lparr>sec_label = refs, sec_tables = [Css ''hoverTable''],
               sec_rows = html_rows ''#/q/'' (Some TABLE_CSS) name remote gitiles logs\<rparr>]
           else if fhtmlp docs = Some h \<and> fhtml docs \<noteq> None then
             [\<lparr>sec_label = refs, sec_tables = [Css ''hoverTable''],
               sec_rows = html_rows ''#q,'' None name remote gitiles
                            (matching env pattern logs)\<rparr>]
           else [])"
  using d
  by (auto simp add: report_html_run [OF nf] fold_block handles_def split: option.splits)

lemma fold_range_step:
  assumes nf: "no_io_failure env" and d: "distinct (handles docs)"
  shows "foldl (record_effect h) ss
           (snd (range_step env project args brefs erefs docs pattern name remote gitiles
                   ref logs)) =
         ss @ step_sections env docs pattern name remote gitiles h
                (range_label args brefs erefs ref) (logs @ extracted project ref erefs)"
proof -
  have q: "foldl (record_effect h) ss (snd (extract_range project ref erefs [])) = ss"
    using emits_extract_range [of project ref erefs "[]"]
    by (intro fold_quiet) (auto simp: emits_def list_all_iff)
  show ?thesis
    using d
    by (auto simp add: range_step_run [OF nf] q fold_report_text [OF nf d]
          fold_report_html [OF nf d] step_sections_def handles_def)
qed

lemma loop_run:
  assumes nf: "no_io_failure env" and d: "distinct (handles docs)"
  shows "fst (for_acc rs logs
                (range_step env project args brefs erefs docs pattern name remote gitiles)) =
           Inr (logs @ concat (map (\<lambda>r. extracted project r erefs) rs)) \<and>
         foldl (record_effect h) ss
           (snd (for_acc rs logs
                   (range_step env project args brefs erefs docs pattern name remote gitiles))) =
           ss @ concat (map (\<lambda>(r, l). step_sections env docs pattern name remote gitiles h
                                         (range_label args brefs erefs r) l)
                          (zip rs (cumulative (\<lambda>r. extracted project r erefs) rs logs)))"
proof (induction rs arbitrary: logs ss)
  case Nil
  then show ?case by (simp add: succeed_def)
next
  case (Cons r rs)
  show ?case
    using Cons [of "logs @ extracted project r erefs"
                   "ss @ step_sections env docs pattern name remote gitiles h
                          (range_label args brefs erefs r) (logs @ extracted project r erefs)"]
          fold_range_step [OF nf d, of h ss project args brefs erefs pattern name remote gitiles r logs]
    by (simp add: range_step_run [OF nf])
qed

section \<open>Opening the documents\<close>

lemma and_then_InrD:
  assumes "fst (and_then m f) = Inr y"
  obtains x where "fst m = Inr x" and "fst (f x) = Inr y"
    and "snd (and_then m f) = snd m @ snd (f x)"
proof (cases m)
  case (Pair r out)
  show ?thesis
  proof (cases r)
    case (Inl e)
    with Pair assms show ?thesis by simp
  next
    case (Inr x)
    with Pair assms that [of x] show ?thesis by simp
  qed
qed

lemma report_paths_distinct:
  "distinct [path_join output REPORT_TEXT, path_join output FILTER_TEXT,
             path_join output REPORT_HTML, path_join output FILTER_HTML]"
  by (simp add: path_join_def REPORT_TEXT_def FILTER_TEXT_def REPORT_HTML_def FILTER_HTML_def)

lemma opened_append [simp]: "opened (a @ b) = opened a @ opened b"
  by (induction a rule: opened.induct) simp_all

lemma closed_append [simp]: "closed (a @ b) = closed a @ closed b"
  by (induction a rule: closed.induct) simp_all

lemma range_queries_append [simp]: "range_queries (a @ b) = range_queries a @ range_queries b"
  by (induction a rule: range_queries.induct) simp_all

lemma opened_none: "list_all (\<lambda>e. is_git e \<or> is_write e \<or> is_close e) out \<Longrightarrow> opened out = []"
  by (induction out rule: opened.induct) simp_all

lemma closed_none: "list_all (\<lambda>e. is_git e \<or> is_write e \<or> is_open e) out \<Longrightarrow> closed out = []"
  by (induction out rule: closed.induct) simp_all

lemma range_queries_none:
  "list_all (\<lambda>e. is_write e \<or> is_open e \<or> is_close e) out \<Longrightarrow> range_queries out = []"
  by (induction out rule: range_queries.induct) simp_all

lemma open_file_Inr:
  "fst (open_file env p name fmt css) = Inr f \<Longrightarrow>
   f = Some p \<and> snd (open_file env p name fmt css) = [Open p name fmt css]"
  by (auto simp: open_file_def io_op_def succeed_def split: if_splits)

lemma open_text_documents_Inr:
  assumes "fst (open_text_documents env name output fmt pattern) = Inr (a, b)"
  shows "a = (if fmt \<in> {''all'', ''text''} then Some (path_join output REPORT_TEXT) else None) \<and>
         b = (if fmt \<in> {''all'', ''text''} \<and> pattern_truthy pattern
              then Some (path_join output FILTER_TEXT) else None) \<and>
         opened (snd (open_text_documents env name output fmt pattern)) =
           (case a of None \<Rightarrow> [] | Some x \<Rightarrow> [x]) @ (case b of None \<Rightarrow> [] | Some x \<Rightarrow> [x])"
  using assms
  unfolding open_text_documents_def open_file_def io_op_def succeed_def
  by (auto split: if_splits)

lemma open_html_documents_Inr:
  assumes "fst (open_html_documents env name output fmt pattern) = Inr (a, b)"
  shows "a = (if fmt \<in> {''all'', ''html''} then Some (path_join output REPORT_HTML) else None) \<and>
         b = (if fmt \<in> {''all'', ''html''} \<and> pattern_truthy pattern
              then Some (path_join output FILTER_HTML) else None) \<and>
         opened (snd (open_html_documents env name output fmt pattern)) =
           (case a of None \<Rightarrow> [] | Some x \<Rightarrow> [x]) @ (case b of None \<Rightarrow> [] | Some x \<Rightarrow> [x])"
  using assms
  unfolding open_html_documents_def open_file_def io_op_def succeed_def
  by (auto split: if_splits)

lemma pair_then_Inr:
  assumes "fst (and_then T (\<lambda>(ft, ftp). and_then H (\<lambda>(fh, fhp).
                  succeed (mk ft ftp fh fhp)))) = Inr docs"
  shows "\<exists>a b c d. fst T = Inr (a, b) \<and> fst H = Inr (c, d) \<and> docs = mk a b c d \<and>
           snd (and_then T (\<lambda>(ft, ftp). and_then H (\<lambda>(fh, fhp).
                  succeed (mk ft ftp fh fhp)))) = snd T @ snd H"
proof -
  obtain rt ot where T: "T = (rt, ot)" by (cases T)
  obtain rh oh where H: "H = (rh, oh)" by (cases H)
  show ?thesis
  proof (cases rt)
    case (Inl e)
    with assms T show ?thesis by simp
  next
    case t: (Inr ab)
    show ?thesis
    proof (cases rh)
      case (Inl e)
      with assms T H t show ?thesis by (simp add: case_prod_beta)
    next
      case (Inr cd)
      with assms T H t show ?thesis by (cases ab; cases cd) (simp add: succeed_def)
    qed
  qed
qed

lemma opened_ensure_output: "opened (snd (ensure_output env output)) = []"
  by (simp add: ensure_output_def io_op_def succeed_def)

lemma open_documents_Inr:
  assumes "fst (open_documents env name output format pattern) = Inr docs"
  shows "docs = documents_for output format pattern \<and>
         opened (snd (open_documents env name output format pattern)) = handles docs"
proof (cases "format = None \<or> format = Some []")
  case True
  with assms show ?thesis
    unfolding open_documents_def
    by (elim and_then_InrD)
       (auto simp: opened_ensure_output succeed_def documents_for_def opens_text_def
          opens_html_def handles_def)
next
  case False
  then obtain fmt where fmt: "format = Some fmt" "fmt \<noteq> []" by auto
  let ?rest = "and_then (open_text_documents env name output fmt pattern) (\<lambda>(ft, ftp).
             and_then (open_html_documents env name output fmt pattern) (\<lambda>(fh, fhp).
               succeed \<lparr>ftext = ft, fhtml = fh, ftextp = ftp, fhtmlp = fhp\<rparr>))"
  have eq: "open_documents env name output format pattern =
            and_then (ensure_output env output) (\<lambda>_. ?rest)"
    by (simp add: open_documents_def fmt)
  from assms have "fst ?rest = Inr docs \<and>
      snd (open_documents env name output format pattern) =
        snd (ensure_output env output) @ snd ?rest"
    unfolding eq by - (erule and_then_InrD, simp)
  then have A: "fst ?rest = Inr docs"
    and out: "snd (open_documents env name output format pattern) =
              snd (ensure_output env output) @ snd ?rest"
    by simp_all
  from pair_then_Inr [OF A] obtain a b c d where
      T: "fst (open_text_documents env name output fmt pattern) = Inr (a, b)"
    and H: "fst (open_html_documents env name output fmt pattern) = Inr (c, d)"
    and docs: "docs = \<lparr>ftext = a, fhtml = c, ftextp = b, fhtmlp = d\<rparr>"
    and o2: "snd ?rest = snd (open_text_documents env name output fmt pattern) @
                         snd (open_html_documents env name output fmt pattern)"
    by blast
  note t = open_text_documents_Inr [OF T] and h = open_html_documents_Inr [OF H]
  have "docs = documents_for output format pattern"
    using t h by (simp add: docs documents_for_def opens_text_def opens_html_def fmt)
  moreover have "opened (snd (open_documents env name output format pattern)) = handles docs"
    unfolding out o2 using t h
    by (simp add: opened_ensure_output docs handles_def)
  ultimately show ?thesis by simp
qed

lemma handles_documents_for: "distinct (handles (documents_for output format pattern))"
  by (simp add: handles_def documents_for_def path_join_def REPORT_TEXT_def FILTER_TEXT_def
      REPORT_HTML_def FILTER_HTML_def)

section \<open>The whole run\<close>

lemma open_documents_ok:
  assumes nf: "no_io_failure env"
  shows "fst (open_documents env name output format pattern) =
           Inr (documents_for output format pattern)"
  unfolding open_documents_def ensure_output_def open_text_documents_def
    open_html_documents_def open_file_def
  by (simp add: io_op_ok [OF nf] succeed_def documents_for_def opens_text_def opens_html_def
      split: option.splits)

lemma close_documents_ok:
  assumes nf: "no_io_failure env"
  shows "fst (close_documents env docs) = Inr ()"
  unfolding close_documents_def close_file_def
  by (simp add: io_op_ok [OF nf] succeed_def split: option.splits)

lemma sections_of_append:
  "sections_of h (a @ b) = foldl (record_effect h) (sections_of h a) b"
  by (simp add: sections_of_def)

lemma sections_of_quiet:
  "list_all (\<lambda>e. is_git e \<or> is_open e \<or> is_close e) out \<Longrightarrow> sections_of h out = []"
  by (simp add: sections_of_def fold_quiet)

lemma emits_weaken: "emits P m \<Longrightarrow> (\<And>e. P e \<Longrightarrow> Q e) \<Longrightarrow> list_all Q (snd m)"
  by (auto simp: emits_def list_all_iff)

lemma generate_report_run:
  assumes nf: "no_io_failure env"
    and rr: "fst (resolve_ranges project args) = Inr (brefs, erefs)"
  shows "fst (generate_report env args project name output format patterns remote gitiles) =
           Inr (concat (map (\<lambda>r. extracted project r erefs) brefs))"
    and "snd (generate_report env args project name output format patterns remote gitiles) =
           snd (resolve_ranges project args) @
           snd (open_documents env name output format (build_pattern patterns)) @
           snd (for_acc brefs []
                  (range_step env project args brefs erefs
                     (documents_for output format (build_pattern patterns))
                     (build_pattern patterns) name remote gitiles)) @
           snd (close_documents env (documents_for output format (build_pattern patterns)))"
proof -
  let ?pat = "build_pattern patterns"
  let ?docs = "documents_for output format ?pat"
  obtain o0 where r: "resolve_ranges project args = (Inr (brefs, erefs), o0)"
    using rr by (cases "resolve_ranges project args") simp
  obtain o1 where od: "open_documents env name output format ?pat = (Inr ?docs, o1)"
    using open_documents_ok [OF nf, of name "output" "format" ?pat]
    by (cases "open_documents env name output format ?pat") simp
  obtain o3 where c: "close_documents env ?docs = (Inr (), o3)"
    using close_documents_ok [OF nf, of ?docs] by (cases "close_documents env ?docs") simp
  note l = loop_run [OF nf handles_documents_for, of brefs "[]" project args brefs erefs
                       "output" "format" ?pat ?pat name remote gitiles, THEN conjunct1]
  obtain o2 where lp: "for_acc brefs []
                  (range_step env project args brefs erefs ?docs ?pat name remote gitiles) =
                  (Inr (concat (map (\<lambda>r. extracted project r erefs) brefs)), o2)"
    using l by (cases "for_acc brefs []
                  (range_step env project args brefs erefs ?docs ?pat name remote gitiles)") simp
  show "fst (generate_report env args project name output format patterns remote gitiles) =
           Inr (concat (map (\<lambda>r. extracted project r erefs) brefs))"
    by (simp add: generate_report_def Let_def r od lp c succeed_def)
  show "snd (generate_report env args project name output format patterns remote gitiles) =
           snd (resolve_ranges project args) @
           snd (open_documents env name output format ?pat) @
           snd (for_acc brefs []
                  (range_step env project args brefs erefs ?docs ?pat name remote gitiles)) @
           snd (close_documents env ?docs)"
    by (simp add: generate_report_def Let_def r od lp c succeed_def)
qed

lemma generate_report_sections:
  assumes nf: "no_io_failure env"
    and rr: "fst (resolve_ranges project args) = Inr (brefs, erefs)"
  shows "sections_of h
           (snd (generate_report env args project name output format patterns remote gitiles)) =
         run_sections env args project name output format patterns remote gitiles brefs erefs h"
proof -
  let ?pat = "build_pattern patterns"
  let ?docs = "documents_for output format ?pat"
  have q0: "list_all (\<lambda>e. is_git e \<or> is_open e \<or> is_close e) (snd (resolve_ranges project args))"
    by (rule emits_weaken [OF emits_resolve_ranges]) simp
  have q1: "list_all (\<lambda>e. is_git e \<or> is_open e \<or> is_close e)
              (snd (open_documents env name output format ?pat))"
    by (rule emits_weaken [OF emits_open_documents]) simp
  have q3: "list_all (\<lambda>e. is_git e \<or> is_open e \<or> is_close e)
              (snd (close_documents env ?docs))"
    by (rule emits_weaken [OF emits_close_documents]) simp
  note l = loop_run [OF nf handles_documents_for, of brefs "[]" project args brefs erefs
                       "output" "format" ?pat ?pat name remote gitiles h "[]", THEN conjunct2]
  show ?thesis
    unfolding generate_report_run(2) [OF nf rr] sections_of_def foldl_append
    by (simp add: fold_quiet [OF q0] fold_quiet [OF q1] fold_quiet [OF q3] l run_sections_def)
qed

lemma generate_report_unresolved:
  assumes "fst (resolve_ranges project args) = Inl e"
  shows "generate_report env args project name output format patterns remote gitiles =
           (Inl e, snd (resolve_ranges project args))"
  using assms
  by (cases "resolve_ranges project args") (simp add: generate_report_def Let_def)

section \<open>A run that returns is a run without failure\<close>

lemma no_io_failure_calm: "no_io_failure (calm env)"
  by (simp add: no_io_failure_def calm_def)

lemma pattern_match_calm [simp]: "pattern_match (calm env) = pattern_match env"
  by (simp add: calm_def)

lemma path_exists_calm [simp]: "path_exists (calm env) = path_exists env"
  by (simp add: calm_def)

lemma matching_calm [simp]: "matching (calm env) = matching env"
  by (intro ext) (simp add: matching_def)

lemma settles_refl: "settles m m"
  by (simp add: settles_def)

lemma settles_and_then:
  assumes m: "settles m m0" and f: "\<And>x. settles (f x) (f0 x)"
  shows "settles (and_then m f) (and_then m0 f0)"
  unfolding settles_def
proof (intro allI impI)
  fix y
  assume ok: "fst (and_then m f) = Inr y"
  obtain r out where mr: "m = (r, out)" by (cases m)
  show "and_then m f = and_then m0 f0"
  proof (cases r)
    case (Inl e)
    with ok mr show ?thesis by simp
  next
    case (Inr x)
    with mr m have m0: "m0 = (Inr x, out)" by (simp add: settles_def)
    from ok mr Inr have "fst (f x) = Inr y" by simp
    with f [of x] have "f x = f0 x" by (simp add: settles_def)
    with mr Inr m0 show ?thesis by simp
  qed
qed

lemma settles_io_op: "settles (io_op env e) (io_op (calm env) e)"
  by (simp add: settles_def io_op_def calm_def)

lemma settles_if:
  "(c \<Longrightarrow> settles a a0) \<Longrightarrow> (\<not> c \<Longrightarrow> settles b b0) \<Longrightarrow>
   settles (if c then a else b) (if c then a0 else b0)"
  by simp

lemma settles_case_prod:
  "(\<And>a b. settles (f a b) (f0 a b)) \<Longrightarrow>
   settles (case x of (a, b) \<Rightarrow> f a b) (case x of (a, b) \<Rightarrow> f0 a b)"
  by (cases x) simp

lemma settles_case_option:
  "(x = None \<Longrightarrow> settles a a0) \<Longrightarrow> (\<And>v. x = Some v \<Longrightarrow> settles (f v) (f0 v)) \<Longrightarrow>
   settles (case x of None \<Rightarrow> a | Some v \<Rightarrow> f v) (case x of None \<Rightarrow> a0 | Some v \<Rightarrow> f0 v)"
  by (cases x) simp_all

lemma settles_for_each:
  "(\<And>x. settles (f x) (f0 x)) \<Longrightarrow> settles (for_each xs f) (for_each xs f0)"
  by (induction xs) (simp_all add: settles_and_then settles_refl)

lemma settles_for_acc:
  "(\<And>x s. settles (f x s) (f0 x s)) \<Longrightarrow> settles (for_acc xs s f) (for_acc xs s f0)"
  by (induction xs arbitrary: s) (simp_all add: settles_and_then settles_refl)

lemma settles_with_table:
  assumes b: "settles body body0"
  shows "settles (with_table env h spec body) (with_table (calm env) h spec body0)"
  unfolding settles_def
proof (intro allI impI)
  fix y
  assume ok: "fst (with_table env h spec body) = Inr y"
  obtain r out where br: "body = (r, out)" by (cases body)
  from ok have enter: "\<not> io_fails env (TableEnter h spec)"
    by (auto simp: with_table_def io_op_def split: if_splits)
  with ok br have exit: "\<not> io_fails env (TableExit h)"
    by (auto simp: with_table_def io_op_def split: if_splits)
  with ok br enter have "r = Inr y"
    by (simp add: with_table_def io_op_def)
  with b br have "body0 = body" by (simp add: settles_def)
  with enter exit show "with_table env h spec body = with_table (calm env) h spec body0"
    by (simp add: with_table_def io_op_def calm_def)
qed

lemmas settles_intros =
  settles_and_then settles_if settles_case_prod settles_case_option settles_for_each
  settles_for_acc settles_with_table settles_io_op settles_refl

lemma settles_open_documents:
  "settles (open_documents env name output format pattern)
           (open_documents (calm env) name output format pattern)"
  unfolding open_documents_def ensure_output_def open_text_documents_def
    open_html_documents_def open_file_def path_exists_calm
  by (intro settles_intros)

lemma settles_close_documents:
  "settles (close_documents env docs) (close_documents (calm env) docs)"
  unfolding close_documents_def close_file_def
  by (intro settles_intros)

lemma settles_report_text:
  "settles (report_text env docs pattern refs logs) (report_text (calm env) docs pattern refs logs)"
  unfolding report_text_def Let_def pattern_match_calm
  by (intro settles_intros)

lemma settles_html_row:
  "settles (html_row env fh name remote gitiles c) (html_row (calm env) fh name remote gitiles c)"
  unfolding html_row_def Let_def
  by (intro settles_intros)

lemma settles_html_row_filtered:
  "settles (html_row_filtered env fhp pattern name remote gitiles c)
           (html_row_filtered (calm env) fhp pattern name remote gitiles c)"
  unfolding html_row_filtered_def Let_def pattern_match_calm
  by (intro settles_intros)

lemma settles_report_html:
  "settles (report_html env docs pattern name remote gitiles refs logs)
           (report_html (calm env) docs pattern name remote gitiles refs logs)"
  unfolding report_html_def
  by (intro settles_intros settles_html_row settles_html_row_filtered)

lemma settles_range_step:
  "settles (range_step env project args brefs erefs docs pattern name remote gitiles ref logs)
     (range_step (calm env) project args brefs erefs docs pattern name remote gitiles ref logs)"
  unfolding range_step_def Let_def
  by (intro settles_and_then settles_refl settles_report_text settles_report_html)

lemma settles_generate_report:
  "settles (generate_report env args project name output format patterns remote gitiles)
     (generate_report (calm env) args project name output format patterns remote gitiles)"
  unfolding generate_report_def Let_def
  by (intro settles_and_then settles_case_prod settles_for_acc settles_refl
        settles_open_documents settles_close_documents settles_range_step)

lemma generate_report_calm:
  assumes "fst (generate_report env args project name output format patterns remote gitiles) =
             Inr logs"
  shows "generate_report env args project name output format patterns remote gitiles =
         generate_report (calm env) args project name output format patterns remote gitiles"
  using settles_generate_report [of env args project name "output" "format" patterns remote gitiles]
    assms
  by (simp add: settles_def)

section \<open>Sections and the records of the ranges\<close>

lemma concat_singletons: "concat (map (\<lambda>(r, l). [f r l]) xs) = map (\<lambda>(r, l). f r l) xs"
  by (induction xs) auto

lemma row_texts_text_rows: "map row_texts (text_rows logs) = map commit_texts logs"
  by (simp add: text_rows_def row_texts_def commit_texts_def case_prod_beta)

lemma cell_text_sha1_cell: "cell_text (sha1_cell query name remote gitiles sha1) = sha1"
  by (simp add: sha1_cell_def split: option.splits)

lemma row_texts_html_rows:
  "map row_texts (html_rows query csses name remote gitiles logs) = map commit_texts logs"
  by (simp add: html_rows_def row_texts_def commit_texts_def case_prod_beta cell_text_sha1_cell
      mailto_def)

lemma subseq_matching: "subseq (matching env pattern logs) logs"
  by (simp add: matching_def)

lemma run_sections_map:
  assumes one: "\<And>r l. step_sections env (documents_for output format (build_pattern patterns))
                 (build_pattern patterns) name remote gitiles h r l = [S r l]"
  shows "run_sections env args project name output format patterns remote gitiles
              brefs erefs h =
            map (\<lambda>(r, l). S (range_label args brefs erefs r) l)
              (zip brefs (cumulative (\<lambda>r. extracted project r erefs) brefs []))"
  unfolding run_sections_def one by (rule concat_singletons)

lemma run_sections_length:
  assumes one: "\<And>r l. step_sections env (documents_for output format (build_pattern patterns))
                 (build_pattern patterns) name remote gitiles h r l = [S r l]"
  shows "length (run_sections env args project name output format patterns remote gitiles
                   brefs erefs h) = length brefs"
  by (simp add: run_sections_map [OF one])

lemma run_sections_nth:
  assumes k: "k < length brefs"
    and one: "\<And>r l. step_sections env (documents_for output format (build_pattern patterns))
                 (build_pattern patterns) name remote gitiles h r l = [S r l]"
  shows "run_sections env args project name output format patterns remote gitiles
           brefs erefs h ! k =
         S (range_label args brefs erefs (brefs ! k))
           (concat (map (\<lambda>r. extracted project r erefs) (take (Suc k) brefs)))"
  using k by (simp add: run_sections_map [OF one] nth_cumulative)

lemma resolve_two_references:
  assumes "2 \<le> length args" and "fst (resolve_ranges project args) = Inr (brefs, erefs)"
  shows "brefs = [hd brefs] \<and>
         fst (secure_sha project (args ! 0)) = Inr (hd brefs) \<and>
         fst (secure_sha project (args ! 1)) = Inr erefs"
proof -
  from assms have "fst (and_then (secure_sha project (args ! 1)) (\<lambda>erefs.
        and_then (secure_sha project (args ! 0)) (\<lambda>bref.
          succeed ([bref], erefs)))) = Inr (brefs, erefs)"
    by (simp add: resolve_ranges_def)
  then show ?thesis
    by (elim and_then_InrD) (auto simp: succeed_def)
qed

lemma sections_hold_cumulative_records_nf:
  assumes nf: "no_io_failure env"
    and rr: "fst (resolve_ranges project args) = Inr (brefs, erefs)"
    and od: "fst (open_documents env name output format (build_pattern patterns)) = Inr docs"
    and p: "ftext docs = Some p \<or> fhtml docs = Some p"
    and k: "k < length brefs"
  shows "length (sections_of p (snd (generate_report env args project name output format
                                       patterns remote gitiles))) = length brefs \<and>
         map row_texts (sec_rows (sections_of p
             (snd (generate_report env args project name output format patterns remote
                     gitiles)) ! k)) =
           map commit_texts
             (concat (map (\<lambda>r. extracted project r erefs) (take (Suc k) brefs))) \<and>
         (2 \<le> length args \<longrightarrow>
            brefs = [hd brefs] \<and>
            fst (secure_sha project (args ! 0)) = Inr (hd brefs) \<and>
            fst (secure_sha project (args ! 1)) = Inr erefs \<and>
            sec_label (sections_of p
              (snd (generate_report env args project name output format patterns remote
                      gitiles)) ! k) = hd brefs @ ''..'' @ erefs \<and>
            map row_texts (sec_rows (sections_of p
              (snd (generate_report env args project name output format patterns remote
                      gitiles)) ! k)) =
              map commit_texts (extracted project (hd brefs) erefs))"
proof -
  let ?pat = "build_pattern patterns"
  let ?docs = "documents_for output format ?pat"
  let ?secs = "sections_of p (snd (generate_report env args project name output format
                                       patterns remote gitiles))"
  have docs: "docs = ?docs"
    using open_documents_Inr [OF od] by simp
  have d: "distinct (handles ?docs)" by (rule handles_documents_for)
  have secs: "?secs = run_sections env args project name output format patterns remote gitiles
                        brefs erefs p"
    by (rule generate_report_sections [OF nf rr])
  obtain S where one: "\<And>r l. step_sections env ?docs ?pat name remote gitiles p r l = [S r l]"
    and lab: "\<And>r l. sec_label (S r l) = r"
    and rows: "\<And>r l. map row_texts (sec_rows (S r l)) = map commit_texts l"
  proof (cases "ftext ?docs = Some p")
    case True
    show ?thesis
      by (rule that [of "\<lambda>r l. \<lparr>sec_label = r, sec_tables = [Widths (column_widths l)],
                                  sec_rows = text_rows l\<rparr>"])
         (simp_all add: step_sections_def True row_texts_text_rows)
  next
    case False
    with p docs have h: "fhtml ?docs = Some p" by simp
    with d have n: "ftextp ?docs \<noteq> Some p" by (auto simp: handles_def)
    show ?thesis
      by (rule that [of "\<lambda>r l. \<lparr>sec_label = r, sec_tables = [Css ''hoverTable''],
                                  sec_rows = html_rows ''#/q/'' (Some TABLE_CSS) name remote
                                               gitiles l\<rparr>"])
         (simp_all add: step_sections_def False h n row_texts_html_rows)
  qed
  note n = run_sections_nth [OF k one, of args project erefs]
  have len: "length ?secs = length brefs"
    by (simp add: secs run_sections_length [OF one])
  have nth: "?secs ! k = S (range_label args brefs erefs (brefs ! k))
                           (concat (map (\<lambda>r. extracted project r erefs) (take (Suc k) brefs)))"
    by (simp add: secs n)
  have two: "brefs = [hd brefs] \<and>
            fst (secure_sha project (args ! 0)) = Inr (hd brefs) \<and>
            fst (secure_sha project (args ! 1)) = Inr erefs \<and>
            sec_label (?secs ! k) = hd brefs @ ''..'' @ erefs \<and>
            map row_texts (sec_rows (?secs ! k)) =
              map commit_texts (extracted project (hd brefs) erefs)"
    if a: "2 \<le> length args"
  proof -
    note r2 = resolve_two_references [OF a rr]
    then have b: "brefs = [hd brefs]" by simp
    then have ne: "brefs \<noteq> []" by auto
    from b k have k0: "k = 0" by (metis length_Cons less_Suc0 list.size(3))
    have t: "take (Suc k) brefs = [hd brefs]"
      unfolding k0 by (subst b) simp
    have "range_label args brefs erefs (brefs ! k) = hd brefs @ ''..'' @ erefs"
      using a ne by (simp add: range_label_def k0 hd_conv_nth)
    then have "sec_label (?secs ! k) = hd brefs @ ''..'' @ erefs"
      by (simp add: nth lab)
    moreover have "map row_texts (sec_rows (?secs ! k)) =
              map commit_texts (extracted project (hd brefs) erefs)"
      by (simp add: nth rows t)
    ultimately show ?thesis using r2 by simp
  qed
  show ?thesis
    using len nth rows two by simp
qed

lemma filtered_rows_subsequence_nf:
  assumes nf: "no_io_failure env"
    and od: "fst (open_documents env name output format (build_pattern patterns)) = Inr docs"
    and pq: "(ftext docs = Some p \<and> ftextp docs = Some q) \<or>
             (fhtml docs = Some p \<and> fhtmlp docs = Some q)"
    and k: "k < length (sections_of q (snd (generate_report env args project name output format
                                              patterns remote gitiles)))"
  shows "length (sections_of p (snd (generate_report env args project name output format
                                       patterns remote gitiles))) =
         length (sections_of q (snd (generate_report env args project name output format
                                       patterns remote gitiles))) \<and>
         sec_label (sections_of q (snd (generate_report env args project name output format
                                          patterns remote gitiles)) ! k) =
         sec_label (sections_of p (snd (generate_report env args project name output format
                                          patterns remote gitiles)) ! k) \<and>
         subseq
           (map row_texts (sec_rows (sections_of q
              (snd (generate_report env args project name output format patterns remote
                      gitiles)) ! k)))
           (map row_texts (sec_rows (sections_of p
              (snd (generate_report env args project name output format patterns remote
                      gitiles)) ! k))) \<and>
         (ftextp docs = Some q \<longrightarrow>
            subseq
              (sec_rows (sections_of q
                 (snd (generate_report env args project name output format patterns remote
                         gitiles)) ! k))
              (sec_rows (sections_of p
                 (snd (generate_report env args project name output format patterns remote
                         gitiles)) ! k)))"
proof -
  let ?pat = "build_pattern patterns"
  let ?docs = "documents_for output format ?pat"
  let ?out = "snd (generate_report env args project name output format patterns remote gitiles)"
  have docs: "docs = ?docs"
    using open_documents_Inr [OF od] by simp
  have d: "distinct (handles ?docs)" by (rule handles_documents_for)
  show ?thesis
  proof (cases "fst (resolve_ranges project args)")
    case (Inl e)
    have "sections_of q ?out = []"
      unfolding generate_report_unresolved [OF Inl]
      by (simp add: sections_of_quiet emits_weaken [OF emits_resolve_ranges])
    with k show ?thesis by simp
  next
    case (Inr be)
    obtain brefs erefs where be: "be = (brefs, erefs)" by (cases be)
    with Inr have rr: "fst (resolve_ranges project args) = Inr (brefs, erefs)" by simp
    have sp: "sections_of p ?out = run_sections env args project name output format patterns
                remote gitiles brefs erefs p"
      and sq: "sections_of q ?out = run_sections env args project name output format patterns
                remote gitiles brefs erefs q"
      by (rule generate_report_sections [OF nf rr])+
    from pq show ?thesis
    proof
      assume t: "ftext docs = Some p \<and> ftextp docs = Some q"
      with d docs have ne: "p \<noteq> q" by (auto simp: handles_def)
      let ?P = "\<lambda>r l. \<lparr>sec_label = r, sec_tables = [Widths (column_widths l)],
                        sec_rows = text_rows l\<rparr>"
      let ?Q = "\<lambda>r l. \<lparr>sec_label = r, sec_tables = [Widths (column_widths l)],
                        sec_rows = text_rows (matching env ?pat l)\<rparr>"
      have oneP: "\<And>r l. step_sections env ?docs ?pat name remote gitiles p r l = [?P r l]"
        using t docs by (simp add: step_sections_def)
      have oneQ: "\<And>r l. step_sections env ?docs ?pat name remote gitiles q r l = [?Q r l]"
        using t docs ne by (auto simp add: step_sections_def)
      have lq: "length (sections_of q ?out) = length brefs"
        unfolding sq by (rule run_sections_length [OF oneQ])
      with k have kb: "k < length brefs" by simp
      note nP = run_sections_nth [OF kb oneP, of args project erefs]
      note nQ = run_sections_nth [OF kb oneQ, of args project erefs]
      have "subseq (text_rows (matching env ?pat l)) (text_rows l)" for l
        unfolding text_rows_def by (intro subseq_map subseq_matching)
      moreover have "subseq (map row_texts (text_rows (matching env ?pat l)))
                       (map row_texts (text_rows l))" for l
        unfolding text_rows_def by (intro subseq_map subseq_matching)
      ultimately show ?thesis
        unfolding sp sq by (simp add: nP nQ run_sections_length [OF oneP]
            run_sections_length [OF oneQ])
    next
      assume t: "fhtml docs = Some p \<and> fhtmlp docs = Some q"
      with d docs have ne: "p \<noteq> q" "ftext ?docs \<noteq> Some p" "ftext ?docs \<noteq> Some q"
         "ftextp ?docs \<noteq> Some p" "ftextp ?docs \<noteq> Some q"
        by (auto simp: handles_def)
      let ?P = "\<lambda>r l. \<lparr>sec_label = r, sec_tables = [Css ''hoverTable''],
                        sec_rows = html_rows ''#/q/'' (Some TABLE_CSS) name remote gitiles l\<rparr>"
      let ?Q = "\<lambda>r l. \<lparr>sec_label = r, sec_tables = [Css ''hoverTable''],
                        sec_rows = html_rows ''#q,'' None name remote gitiles
                                     (matching env ?pat l)\<rparr>"
      have oneP: "\<And>r l. step_sections env ?docs ?pat name remote gitiles p r l = [?P r l]"
        using t docs ne by (simp add: step_sections_def)
      have oneQ: "\<And>r l. step_sections env ?docs ?pat name remote gitiles q r l = [?Q r l]"
        using t docs ne by (auto simp add: step_sections_def)
      have lq: "length (sections_of q ?out) = length brefs"
        unfolding sq by (rule run_sections_length [OF oneQ])
      with k have kb: "k < length brefs" by simp
      note nP = run_sections_nth [OF kb oneP, of args project erefs]
      note nQ = run_sections_nth [OF kb oneQ, of args project erefs]
      have "subseq (map commit_texts (matching env ?pat l)) (map commit_texts l)" for l
        by (intro subseq_map subseq_matching)
      moreover have "ftextp docs \<noteq> Some q" using ne docs by simp
      ultimately show ?thesis
        unfolding sp sq by (simp add: nP nQ row_texts_html_rows run_sections_length [OF oneP]
            run_sections_length [OF oneQ])
    qed
  qed
qed

lemma open_documents_calm:
  assumes "fst (open_documents env name output format pattern) = Inr docs"
  shows "fst (open_documents (calm env) name output format pattern) = Inr docs"
  using settles_open_documents [of env name "output" "format" pattern] assms
  by (simp add: settles_def)

text \<open>
  C1, as the code has it.  \<open>logs\<close> is created before the loop over the ranges and
  never reset, so in every run that returns, the section written for the
  \<open>k\<close>-th range of a full document (text or HTML) shows the records of the ranges
  \<open>0..k\<close>, in extraction order, and there is one section per range.  With two
  references there is exactly one range, labelled \<^verbatim>\<open>A..B\<close> by the resolved
  identifiers, and its section shows exactly the records extracted from that range.
\<close>

theorem sections_hold_cumulative_records:
  assumes ok: "fst (generate_report env args project name output format patterns remote
                      gitiles) = Inr logs"
    and rr: "fst (resolve_ranges project args) = Inr (brefs, erefs)"
    and od: "fst (open_documents env name output format (build_pattern patterns)) = Inr docs"
    and p: "ftext docs = Some p \<or> fhtml docs = Some p"
    and k: "k < length brefs"
  shows "length (sections_of p (snd (generate_report env args project name output format
                                       patterns remote gitiles))) = length brefs \<and>
         map row_texts (sec_rows (sections_of p
             (snd (generate_report env args project name output format patterns remote
                     gitiles)) ! k)) =
           map commit_texts
             (concat (map (\<lambda>r. extracted project r erefs) (take (Suc k) brefs))) \<and>
         (2 \<le> length args \<longrightarrow>
            brefs = [hd brefs] \<and>
            fst (secure_sha project (args ! 0)) = Inr (hd brefs) \<and>
            fst (secure_sha project (args ! 1)) = Inr erefs \<and>
            sec_label (sections_of p
              (snd (generate_report env args project name output format patterns remote
                      gitiles)) ! k) = hd brefs @ ''..'' @ erefs \<and>
            map row_texts (sec_rows (sections_of p
              (snd (generate_report env args project name output format patterns remote
                      gitiles)) ! k)) =
              map commit_texts (extracted project (hd brefs) erefs))"
  unfolding generate_report_calm [OF ok]
  by (rule sections_hold_cumulative_records_nf
        [OF no_io_failure_calm rr open_documents_calm [OF od] p k])

text \<open>
  C5.  In every run that returns, a filtered document has as many sections
  as its full document, with the same labels, and the records shown by the rows of each
  filtered section are a subsequence of the records shown by the rows of the same section
  of the full document.  For the text pair the rows themselves are a subsequence.
\<close>

theorem filtered_rows_subsequence:
  assumes ok: "fst (generate_report env args project name output format patterns remote
                      gitiles) = Inr logs"
    and od: "fst (open_documents env name output format (build_pattern patterns)) = Inr docs"
    and pq: "(ftext docs = Some p \<and> ftextp docs = Some q) \<or>
             (fhtml docs = Some p \<and> fhtmlp docs = Some q)"
    and k: "k < length (sections_of q (snd (generate_report env args project name output format
                                              patterns remote gitiles)))"
  shows "length (sections_of p (snd (generate_report env args project name output format
                                       patterns remote gitiles))) =
         length (sections_of q (snd (generate_report env args project name output format
                                       patterns remote gitiles))) \<and>
         sec_label (sections_of q (snd (generate_report env args project name output format
                                          patterns remote gitiles)) ! k) =
         sec_label (sections_of p (snd (generate_report env args project name output format
                                          patterns remote gitiles)) ! k) \<and>
         subseq
           (map row_texts (sec_rows (sections_of q
              (snd (generate_report env args project name output format patterns remote
                      gitiles)) ! k)))
           (map row_texts (sec_rows (sections_of p
              (snd (generate_report env args project name output format patterns remote
                      gitiles)) ! k))) \<and>
         (ftextp docs = Some q \<longrightarrow>
            subseq
              (sec_rows (sections_of q
                 (snd (generate_report env args project name output format patterns remote
                         gitiles)) ! k))
              (sec_rows (sections_of p
                 (snd (generate_report env args project name output format patterns remote
                         gitiles)) ! k)))"
proof -
  note eq = generate_report_calm [OF ok]
  from k have k': "k < length (sections_of q (snd (generate_report (calm env) args project name
                                              output format patterns remote gitiles)))"
    unfolding eq .
  show ?thesis
    unfolding eq
    by (rule filtered_rows_subsequence_nf
          [OF no_io_failure_calm open_documents_calm [OF od] pq k'])
qed

section \<open>Column widths\<close>

lemma Max_insert_max:
  "finite S \<Longrightarrow> Max (insert (max a x) S) = Max (insert (a::nat) (insert x S))"
  by (cases "S = {}") (simp_all add: max.assoc)

lemma column_widths_fold:
  "foldl (\<lambda>column (sha1, author, committer, subject).
              foldl (\<lambda>column (k, col).
                       if length col > column ! k then column[k := length col] else column)
                column (enumerate 0 [sha1, author, committer, subject]))
       [a, b, c, d] logs =
   [Max (insert a ((\<lambda>t. length (commit_texts t ! 0)) ` set logs)),
    Max (insert b ((\<lambda>t. length (commit_texts t ! 1)) ` set logs)),
    Max (insert c ((\<lambda>t. length (commit_texts t ! 2)) ` set logs)),
    Max (insert d ((\<lambda>t. length (commit_texts t ! 3)) ` set logs))]"
  (is "foldl ?F [a, b, c, d] logs = _")
proof (induction logs arbitrary: a b c d)
  case Nil
  show ?case by (simp only: foldl_Nil list.set image_empty Max_singleton)
next
  case (Cons t logs)
  obtain s1 s2 s3 s4 where t: "t = (s1, s2, s3, s4)" by (cases t)
  have step: "foldl (\<lambda>column (k, col).
                       if length col > column ! k then column[k := length col] else column)
                [a, b, c, d] (enumerate 0 [s1, s2, s3, s4]) =
              [max a (length s1), max b (length s2), max c (length s3), max d (length s4)]"
    by (simp add: enumerate_eq_zip upt_rec numeral_2_eq_2 numeral_3_eq_3 max_def)
  have "foldl ?F [a, b, c, d] (t # logs) =
        foldl ?F [max a (length s1), max b (length s2), max c (length s3), max d (length s4)]
          logs"
    by (simp only: foldl_Cons t prod.case step)
  also have "\<dots> =
     [Max (insert (max a (length s1)) ((\<lambda>t. length (commit_texts t ! 0)) ` set logs)),
      Max (insert (max b (length s2)) ((\<lambda>t. length (commit_texts t ! 1)) ` set logs)),
      Max (insert (max c (length s3)) ((\<lambda>t. length (commit_texts t ! 2)) ` set logs)),
      Max (insert (max d (length s4)) ((\<lambda>t. length (commit_texts t ! 3)) ` set logs))]"
    by (rule Cons.IH)
  also have "\<dots> =
     [Max (insert a ((\<lambda>t. length (commit_texts t ! 0)) ` set (t # logs))),
      Max (insert b ((\<lambda>t. length (commit_texts t ! 1)) ` set (t # logs))),
      Max (insert c ((\<lambda>t. length (commit_texts t ! 2)) ` set (t # logs))),
      Max (insert d ((\<lambda>t. length (commit_texts t ! 3)) ` set (t # logs)))]"
    by (simp add: t commit_texts_def Max_insert_max numeral_2_eq_2 numeral_3_eq_3)
  finally show ?case .
qed

lemma column_widths_max:
  "column_widths logs =
     map (\<lambda>j. Max (insert 0 ((\<lambda>t. length (commit_texts t ! j)) ` set logs))) [0..<4]"
  unfolding column_widths_def column_widths_fold
  by (simp add: upt_rec numeral_2_eq_2 numeral_3_eq_3)

lemma text_rows_lengths:
  "(\<lambda>r. length (row_texts r ! j)) ` set (text_rows logs) =
   (\<lambda>t. length (commit_texts t ! j)) ` set logs"
proof -
  have "(\<lambda>r. length (row_texts r ! j)) ` set (text_rows logs) =
        (\<lambda>x. length (x ! j)) ` set (map row_texts (text_rows logs))"
    by (simp add: image_image)
  also have "\<dots> = (\<lambda>x. length (x ! j)) ` set (map commit_texts logs)"
    by (simp only: row_texts_text_rows)
  also have "\<dots> = (\<lambda>t. length (commit_texts t ! j)) ` set logs"
    by (simp add: image_image)
  finally show ?thesis .
qed

lemma text_widths_are_column_maxima_nf:
  assumes nf: "no_io_failure env"
    and od: "fst (open_documents env name output format (build_pattern patterns)) = Inr docs"
    and p: "ftext docs = Some p"
    and k: "k < length (sections_of p (snd (generate_report env args project name output format
                                              patterns remote gitiles)))"
  shows "sec_tables (sections_of p (snd (generate_report env args project name output format
                                           patterns remote gitiles)) ! k) =
           [Widths (map (\<lambda>j. Max (insert 0 ((\<lambda>r. length (row_texts r ! j)) `
                                    set (sec_rows (sections_of p
                                      (snd (generate_report env args project name output format
                                              patterns remote gitiles)) ! k)))))
                      [0..<4])] \<and>
         (ftextp docs = Some q \<longrightarrow>
            sec_tables (sections_of q (snd (generate_report env args project name output format
                                              patterns remote gitiles)) ! k) =
            sec_tables (sections_of p (snd (generate_report env args project name output format
                                              patterns remote gitiles)) ! k))"
proof -
  let ?pat = "build_pattern patterns"
  let ?docs = "documents_for output format ?pat"
  let ?out = "snd (generate_report env args project name output format patterns remote gitiles)"
  have docs: "docs = ?docs"
    using open_documents_Inr [OF od] by simp
  have d: "distinct (handles ?docs)" by (rule handles_documents_for)
  show ?thesis
  proof (cases "fst (resolve_ranges project args)")
    case (Inl e)
    have "sections_of p ?out = []"
      unfolding generate_report_unresolved [OF Inl]
      by (simp add: sections_of_quiet emits_weaken [OF emits_resolve_ranges])
    with k show ?thesis by simp
  next
    case (Inr be)
    obtain brefs erefs where be: "be = (brefs, erefs)" by (cases be)
    with Inr have rr: "fst (resolve_ranges project args) = Inr (brefs, erefs)" by simp
    have sp: "sections_of p ?out = run_sections env args project name output format patterns
                remote gitiles brefs erefs p"
      and sq: "sections_of q ?out = run_sections env args project name output format patterns
                remote gitiles brefs erefs q"
      by (rule generate_report_sections [OF nf rr])+
    let ?P = "\<lambda>r l. \<lparr>sec_label = r, sec_tables = [Widths (column_widths l)],
                      sec_rows = text_rows l\<rparr>"
    let ?Q = "\<lambda>r l. \<lparr>sec_label = r, sec_tables = [Widths (column_widths l)],
                      sec_rows = text_rows (matching env ?pat l)\<rparr>"
    have oneP: "\<And>r l. step_sections env ?docs ?pat name remote gitiles p r l = [?P r l]"
      using p docs by (simp add: step_sections_def)
    from k have kb: "k < length brefs"
      by (simp add: sp run_sections_length [OF oneP])
    note nP = run_sections_nth [OF kb oneP, of args project erefs]
    have first: "sec_tables (sections_of p ?out ! k) =
           [Widths (map (\<lambda>j. Max (insert 0 ((\<lambda>r. length (row_texts r ! j)) `
                                    set (sec_rows (sections_of p ?out ! k))))) [0..<4])]"
      unfolding sp nP by (simp add: column_widths_max text_rows_lengths)
    have second: "sec_tables (sections_of q ?out ! k) = sec_tables (sections_of p ?out ! k)"
      if q: "ftextp docs = Some q"
    proof -
      from q p d docs have ne: "p \<noteq> q" by (auto simp: handles_def)
      have oneQ: "\<And>r l. step_sections env ?docs ?pat name remote gitiles q r l = [?Q r l]"
        using p q docs ne by (auto simp add: step_sections_def)
      note nQ = run_sections_nth [OF kb oneQ, of args project erefs]
      show ?thesis unfolding sp sq nP nQ by simp
    qed
    from first second show ?thesis by simp
  qed
qed

text \<open>
  C8, as the code has it.  In every run that returns, in every section of the full text
  report the four widths
  handed to \<^verbatim>\<open>table\<close> are the maxima of the cell lengths of the rows written to
  that section (0 for a column of empty cells or a section without rows).  The filtered
  text report is handed the same four widths as the full report's section, whatever rows
  the pattern lets through.
\<close>

theorem text_widths_are_column_maxima:
  assumes ok: "fst (generate_report env args project name output format patterns remote
                      gitiles) = Inr logs"
    and od: "fst (open_documents env name output format (build_pattern patterns)) = Inr docs"
    and p: "ftext docs = Some p"
    and k: "k < length (sections_of p (snd (generate_report env args project name output format
                                              patterns remote gitiles)))"
  shows "sec_tables (sections_of p (snd (generate_report env args project name output format
                                           patterns remote gitiles)) ! k) =
           [Widths (map (\<lambda>j. Max (insert 0 ((\<lambda>r. length (row_texts r ! j)) `
                                    set (sec_rows (sections_of p
                                      (snd (generate_report env args project name output format
                                              patterns remote gitiles)) ! k)))))
                      [0..<4])] \<and>
         (ftextp docs = Some q \<longrightarrow>
            sec_tables (sections_of q (snd (generate_report env args project name output format
                                              patterns remote gitiles)) ! k) =
            sec_tables (sections_of p (snd (generate_report env args project name output format
                                              patterns remote gitiles)) ! k))"
proof -
  note eq = generate_report_calm [OF ok]
  from k have k': "k < length (sections_of p (snd (generate_report (calm env) args project name
                                              output format patterns remote gitiles)))"
    unfolding eq .
  show ?thesis
    unfolding eq
    by (rule text_widths_are_column_maxima_nf
          [OF no_io_failure_calm open_documents_calm [OF od] p k'])
qed

section \<open>Hash-list queries\<close>

lemma emits_resolve_only: "emits is_resolve (resolve_ranges project args)"
  unfolding resolve_ranges_def
  by (intro emits_intros)
     (simp_all add: print_def git_rev_list_def secure_sha_run emits_def)

lemma range_queries_quiet:
  "list_all (\<lambda>e. is_resolve e \<or> is_field_query e \<or> is_write e \<or> is_open e \<or> is_close e) out \<Longrightarrow>
   range_queries out = []"
proof (induction out)
  case Nil
  then show ?case by simp
next
  case (Cons e out)
  then show ?case by (cases e) (auto simp: dquote_def)
qed

lemma emits_field_query_only:
  "item \<in> {''%ae'', ''%ce'', ''%s''} \<Longrightarrow> emits is_field_query (field_query project item sha1)"
  by (auto simp add: field_query_run emits_def)

lemma extract_range_queries:
  "range_queries (snd (extract_range project ref erefs logs)) = [ref @ ''..'' @ erefs]"
proof -
  have F: "range_queries (snd (case x of (ret, sha1s) \<Rightarrow>
         if ret = 0 then
           for_acc (split_on newline sha1s) logs (\<lambda>sha1 logs.
             let sha1 = strip_chars [dquote] sha1 in
             if sha1 = [] then succeed logs
             else
               and_then (field_query project ''%ae'' sha1) (\<lambda>author.
               and_then (field_query project ''%ce'' sha1) (\<lambda>committer.
               and_then (field_query project ''%s'' sha1) (\<lambda>subject.
                 succeed (logs @ [(sha1, author, committer, subject)])))))
         else succeed logs)) = []" for x :: "int \<times> string"
    unfolding Let_def
    by (intro range_queries_quiet emits_weaken [where P = is_field_query] emits_intros
          emits_field_query_only) simp_all
  show ?thesis
    unfolding extract_range_def git_log_def and_then_Inr snd_conv range_queries_append F
    by simp
qed

lemma loop_range_queries:
  assumes nf: "no_io_failure env"
  shows "range_queries (snd (for_acc rs logs
           (range_step env project args brefs erefs docs pattern name remote gitiles))) =
         map (\<lambda>r. r @ ''..'' @ erefs) rs"
proof (induction rs arbitrary: logs)
  case Nil
  then show ?case by (simp add: succeed_def)
next
  case (Cons r rs)
  have t: "range_queries (snd (report_text env docs pattern refs l)) = []" for refs l
    by (intro range_queries_quiet emits_weaken [OF emits_report_text]) simp
  have h: "range_queries (snd (report_html env docs pattern name remote gitiles refs l)) = []"
    for refs l
    by (intro range_queries_quiet emits_weaken [OF emits_report_html]) simp
  show ?case
    using Cons [of "logs @ extracted project r erefs"]
    by (simp add: range_step_run [OF nf] extract_range_queries t h)
qed

lemma generate_report_range_queries:
  assumes nf: "no_io_failure env"
    and rr: "fst (resolve_ranges project args) = Inr (brefs, erefs)"
  shows "range_queries
           (snd (generate_report env args project name output format patterns remote gitiles)) =
         map (\<lambda>r. r @ ''..'' @ erefs) brefs"
proof -
  have q0: "range_queries (snd (resolve_ranges project args)) = []"
    by (intro range_queries_quiet emits_weaken [OF emits_resolve_only]) simp
  have q1: "range_queries (snd (open_documents env name output format (build_pattern patterns))) = []"
    by (intro range_queries_quiet emits_weaken [OF emits_open_documents]) simp
  have q3: "range_queries (snd (close_documents env
               (documents_for output format (build_pattern patterns)))) = []"
    by (intro range_queries_quiet emits_weaken [OF emits_close_documents]) simp
  show ?thesis
    unfolding generate_report_run(2) [OF nf rr]
    by (simp add: q0 q1 q3 loop_range_queries [OF nf])
qed

text \<open>
  C7.  When the hash-list query of a range returns a nonzero status, extraction makes
  that one query, raises nothing and leaves \<open>logs\<close> as it was; where no writer
  call raises, the run still queries every range in turn and returns the records of all
  ranges.
\<close>

theorem failed_range_is_skipped:
  assumes nf: "no_io_failure env"
    and rr: "fst (resolve_ranges project args) = Inr (brefs, erefs)"
    and fail: "fst (log project (''--format='' @ [dquote] @ ''%H'') (ref @ ''..'' @ erefs)) \<noteq> 0"
  shows "extract_range project ref erefs logs =
           (Inr logs, [Log (''--format='' @ [dquote] @ ''%H'') (ref @ ''..'' @ erefs)]) \<and>
         extracted project ref erefs = [] \<and>
         fst (generate_report env args project name output format patterns remote gitiles) =
           Inr (concat (map (\<lambda>r. extracted project r erefs) brefs)) \<and>
         range_queries
           (snd (generate_report env args project name output format patterns remote gitiles)) =
           map (\<lambda>r. r @ ''..'' @ erefs) brefs"
proof -
  have e: "extract_range project ref erefs l =
           (Inr l, [Log (''--format='' @ [dquote] @ ''%H'') (ref @ ''..'' @ erefs)])" for l
    using fail by (simp add: extract_range_def git_log_def case_prod_beta succeed_def)
  then have "extracted project ref erefs = []"
    by (simp add: extracted_def)
  with e [of logs] generate_report_run(1) [OF nf rr]
    generate_report_range_queries [OF nf rr]
  show ?thesis by simp
qed

section \<open>The run without references\<close>

lemma step_sections_label:
  "s \<in> set (step_sections env docs pattern name remote gitiles h refs l) \<Longrightarrow> sec_label s = refs"
  by (auto simp: step_sections_def split: if_splits)

lemma split_on_absent: "c \<notin> set s \<Longrightarrow> split_on c s = [s]"
  by (induction s) auto

lemma map_all_equal:
  "list_all (\<lambda>s. f s = c) xs \<Longrightarrow> map f xs = replicate (length xs) c"
  by (induction xs) simp_all

lemma full_document_section_count:
  assumes nf: "no_io_failure env"
    and rr: "fst (resolve_ranges project args) = Inr (brefs, erefs)"
    and od: "fst (open_documents env name output format (build_pattern patterns)) = Inr docs"
    and p: "ftext docs = Some p \<or> fhtml docs = Some p"
  shows "length (sections_of p
           (snd (generate_report env args project name output format patterns remote gitiles))) =
         length brefs"
proof -
  let ?pat = "build_pattern patterns"
  let ?docs = "documents_for output format ?pat"
  have docs: "docs = ?docs"
    using open_documents_Inr [OF od] by simp
  have d: "distinct (handles ?docs)" by (rule handles_documents_for)
  obtain S where one: "\<And>r l. step_sections env ?docs ?pat name remote gitiles p r l = [S r l]"
  proof (cases "ftext ?docs = Some p")
    case True
    show ?thesis
      by (rule that [of "\<lambda>r l. \<lparr>sec_label = r, sec_tables = [Widths (column_widths l)],
                                  sec_rows = text_rows l\<rparr>"])
         (simp add: step_sections_def True)
  next
    case False
    with p docs have h: "fhtml ?docs = Some p" by simp
    with d have n: "ftextp ?docs \<noteq> Some p" by (auto simp: handles_def)
    show ?thesis
      by (rule that [of "\<lambda>r l. \<lparr>sec_label = r, sec_tables = [Css ''hoverTable''],
                                  sec_rows = html_rows ''#/q/'' (Some TABLE_CSS) name remote
                                               gitiles l\<rparr>"])
         (simp add: step_sections_def False h n)
  qed
  show ?thesis
    unfolding generate_report_sections [OF nf rr]
    by (rule run_sections_length [OF one])
qed

lemma split_on_nonempty: "split_on c s \<noteq> []"
  by (induction s) (auto split: list.splits)

lemma zero_reference_run_nf:
  assumes nf: "no_io_failure env"
    and hd: "fst (secure_sha project ''HEAD'') = Inr h"
    and rl: "rev_list project ''--max-parents=0'' h = (0, head)"
    and od: "fst (open_documents env name output format (build_pattern patterns)) = Inr docs"
    and p: "ftext docs = Some p \<or> fhtml docs = Some p"
  shows "take 2 (snd (generate_report env [] project name output format patterns remote gitiles)) =
           [Print ''No SHA-1 provided, use HEAD by default'', RevParse ''HEAD''] \<and>
         fst (resolve_ranges project []) = Inr (split_on newline head, h) \<and>
         range_queries
           (snd (generate_report env [] project name output format patterns remote gitiles)) =
           map (\<lambda>r. r @ ''..'' @ h) (split_on newline head) \<and>
         sections_of p
           (snd (generate_report env [] project name output format patterns remote gitiles)) \<noteq>
           [] \<and>
         map sec_label
           (sections_of p
              (snd (generate_report env [] project name output format patterns remote
                      gitiles))) =
           replicate (length (split_on newline head)) h \<and>
         list_all (\<lambda>s. sec_label s = h)
           (sections_of q
              (snd (generate_report env [] project name output format patterns remote
                      gitiles))) \<and>
         (newline \<notin> set head \<longrightarrow>
            split_on newline head = [head] \<and>
            map sec_label
              (sections_of p
                 (snd (generate_report env [] project name output format patterns remote
                         gitiles))) = [h])"
proof -
  let ?out = "snd (generate_report env [] project name output format patterns remote gitiles)"
  obtain o1 where s: "secure_sha project ''HEAD'' = (Inr h, RevParse ''HEAD'' # o1)"
    using hd by (cases "secure_sha project ''HEAD''") (auto simp: secure_sha_run split: if_splits)
  have r: "resolve_ranges project [] =
             (Inr (split_on newline head, h),
              Print ''No SHA-1 provided, use HEAD by default'' # RevParse ''HEAD'' # o1 @
              [RevList ''--max-parents=0'' h])"
    by (simp add: resolve_ranges_def print_def s git_rev_list_def rl succeed_def)
  then have rr: "fst (resolve_ranges project []) = Inr (split_on newline head, h)" by simp
  have t2: "take 2 ?out = [Print ''No SHA-1 provided, use HEAD by default'', RevParse ''HEAD'']"
    unfolding generate_report_run(2) [OF nf rr] by (simp add: r)
  have lab: "list_all (\<lambda>s. sec_label s = h) (sections_of x ?out)" for x
    unfolding generate_report_sections [OF nf rr] run_sections_def list_all_iff
    by (auto dest!: step_sections_label simp: range_label_def)
  have len: "length (sections_of p ?out) = length (split_on newline head)"
    by (rule full_document_section_count [OF nf rr od p])
  have ne: "sections_of p ?out \<noteq> []"
    using len split_on_nonempty [of newline head] by auto
  have labs: "map sec_label (sections_of p ?out) = replicate (length (split_on newline head)) h"
    using map_all_equal [OF lab [of p]] len by simp
  have one: "split_on newline head = [head] \<and> map sec_label (sections_of p ?out) = [h]"
    if "newline \<notin> set head"
    using split_on_absent [OF that] labs by simp
  from t2 rr generate_report_range_queries [OF nf rr] ne labs lab [of q] one
  show ?thesis by simp
qed

text \<open>
  C6.  Without references, in a run that returns, where \<^verbatim>\<open>HEAD\<close> resolves
  to \<open>h\<close> and the root query succeeds: the first call prints the notice, the next
  resolves \<^verbatim>\<open>HEAD\<close>, the begin references are the lines of the root query's
  answer, each of them is queried as \<^verbatim>\<open><root>..h\<close>, and every full document
  that was opened (text or HTML) receives one section per root, at least one, each
  labelled with the end reference \<open>h\<close> alone; with a single root that is exactly
  one section labelled \<open>h\<close>.  No section of any document has another label.
\<close>

theorem zero_reference_run:
  assumes ok: "fst (generate_report env [] project name output format patterns remote gitiles) =
                 Inr logs"
    and hd: "fst (secure_sha project ''HEAD'') = Inr h"
    and rl: "rev_list project ''--max-parents=0'' h = (0, head)"
    and od: "fst (open_documents env name output format (build_pattern patterns)) = Inr docs"
    and p: "ftext docs = Some p \<or> fhtml docs = Some p"
  shows "take 2 (snd (generate_report env [] project name output format patterns remote gitiles)) =
           [Print ''No SHA-1 provided, use HEAD by default'', RevParse ''HEAD''] \<and>
         fst (resolve_ranges project []) = Inr (split_on newline head, h) \<and>
         range_queries
           (snd (generate_report env [] project name output format patterns remote gitiles)) =
           map (\<lambda>r. r @ ''..'' @ h) (split_on newline head) \<and>
         sections_of p
           (snd (generate_report env [] project name output format patterns remote gitiles)) \<noteq>
           [] \<and>
         map sec_label
           (sections_of p
              (snd (generate_report env [] project name output format patterns remote
                      gitiles))) =
           replicate (length (split_on newline head)) h \<and>
         list_all (\<lambda>s. sec_label s = h)
           (sections_of q
              (snd (generate_report env [] project name output format patterns remote
                      gitiles))) \<and>
         (newline \<notin> set head \<longrightarrow>
            split_on newline head = [head] \<and>
            map sec_label
              (sections_of p
                 (snd (generate_report env [] project name output format patterns remote
                         gitiles))) = [h])"
  unfolding generate_report_calm [OF ok]
  by (rule zero_reference_run_nf [OF no_io_failure_calm hd rl open_documents_calm [OF od] p])

section \<open>Closing the documents\<close>

lemma close_file_Inr:
  "fst (close_file env f) = Inr u \<Longrightarrow>
   snd (close_file env f) = map Close (case f of None \<Rightarrow> [] | Some p \<Rightarrow> [p])"
  by (cases f) (auto simp: close_file_def io_op_def succeed_def split: if_splits)

lemma close_documents_Inr:
  assumes "fst (close_documents env docs) = Inr u"
  shows "snd (close_documents env docs) = map Close (close_order docs)"
  using assms unfolding close_documents_def
  by (elim and_then_InrD) (simp add: close_file_Inr close_order_def)

lemma generate_report_InrD:
  assumes "fst (generate_report env args project name output format patterns remote gitiles) =
             Inr logs"
  shows "\<exists>brefs erefs docs.
           fst (resolve_ranges project args) = Inr (brefs, erefs) \<and>
           fst (open_documents env name output format (build_pattern patterns)) = Inr docs \<and>
           fst (close_documents env docs) = Inr () \<and>
           snd (generate_report env args project name output format patterns remote gitiles) =
             snd (resolve_ranges project args) @
             snd (open_documents env name output format (build_pattern patterns)) @
             snd (for_acc brefs []
                    (range_step env project args brefs erefs docs (build_pattern patterns)
                       name remote gitiles)) @
             snd (close_documents env docs)"
proof -
  let ?pat = "build_pattern patterns"
  obtain r0 o0 where R: "resolve_ranges project args = (r0, o0)"
    by (cases "resolve_ranges project args")
  show ?thesis
  proof (cases r0)
    case (Inl e)
    with assms R show ?thesis by (simp add: generate_report_def Let_def)
  next
    case r0: (Inr be)
    obtain brefs erefs where be: "be = (brefs, erefs)" by (cases be)
    obtain r1 o1 where O: "open_documents env name output format ?pat = (r1, o1)"
      by (cases "open_documents env name output format ?pat")
    show ?thesis
    proof (cases r1)
      case (Inl e)
      with assms R r0 be O show ?thesis by (simp add: generate_report_def Let_def)
    next
      case r1: (Inr docs)
      obtain r2 o2 where L: "for_acc brefs []
                    (range_step env project args brefs erefs docs ?pat name remote gitiles) =
                    (r2, o2)"
        by (cases "for_acc brefs []
                    (range_step env project args brefs erefs docs ?pat name remote gitiles)")
      show ?thesis
      proof (cases r2)
        case (Inl e)
        with assms R r0 be O r1 L show ?thesis by (simp add: generate_report_def Let_def)
      next
        case r2: (Inr l)
        obtain r3 o3 where C: "close_documents env docs = (r3, o3)"
          by (cases "close_documents env docs")
        show ?thesis
        proof (cases r3)
          case (Inl e)
          with assms R r0 be O r1 L r2 C show ?thesis
            by (simp add: generate_report_def Let_def)
        next
          case (Inr u)
          with assms R r0 be O r1 L r2 C show ?thesis
            by (simp add: generate_report_def Let_def succeed_def)
        qed
      qed
    qed
  qed
qed

lemma emits_loop:
  "emits (\<lambda>e. is_git e \<or> is_write e)
     (for_acc rs logs (range_step env project args brefs erefs docs pattern name remote gitiles))"
  by (intro emits_for_acc emits_range_step)

lemma close_order_documents_for:
  "close_order (documents_for output format pattern) =
     filter (\<lambda>p. p \<in> set (handles (documents_for output format pattern)))
       [path_join output FILTER_TEXT, path_join output FILTER_HTML,
        path_join output REPORT_TEXT, path_join output REPORT_HTML]"
  using report_paths_distinct [of "output"]
  by (auto simp add: close_order_def handles_def documents_for_def)

lemma set_close_order: "set (close_order docs) = set (handles docs)"
  by (auto simp: close_order_def handles_def)

lemma closed_map_Close [simp]: "closed (map Close ps) = ps"
  by (induction ps) simp_all

lemma opened_map_Close [simp]: "opened (map Close ps) = []"
  by (induction ps) simp_all

text \<open>
  C10, as the code has it.  When \<^verbatim>\<open>generate_report\<close> returns normally, the
  documents closed are exactly the documents opened, they are closed in the order
  \<^verbatim>\<open>filter.txt\<close>, \<^verbatim>\<open>filter.html\<close>, \<^verbatim>\<open>report.txt\<close>,
  \<^verbatim>\<open>report.html\<close> (each filtered document before its full document), and the
  closing calls are the last calls of the run.
\<close>

theorem documents_closed_on_completion:
  assumes ok: "fst (generate_report env args project name output format patterns remote gitiles) =
             Inr logs"
  shows "closed (snd (generate_report env args project name output format patterns remote
                        gitiles)) =
           filter (\<lambda>p. p \<in> set (opened (snd (generate_report env args project name output
                                                 format patterns remote gitiles))))
             [path_join output FILTER_TEXT, path_join output FILTER_HTML,
              path_join output REPORT_TEXT, path_join output REPORT_HTML] \<and>
         set (closed (snd (generate_report env args project name output format patterns remote
                             gitiles))) =
         set (opened (snd (generate_report env args project name output format patterns remote
                             gitiles))) \<and>
         drop (length (snd (generate_report env args project name output format patterns remote
                              gitiles)) -
               length (closed (snd (generate_report env args project name output format
                                      patterns remote gitiles))))
           (snd (generate_report env args project name output format patterns remote gitiles)) =
         map Close (closed (snd (generate_report env args project name output format patterns
                                   remote gitiles)))"
proof -
  let ?pat = "build_pattern patterns"
  let ?out = "snd (generate_report env args project name output format patterns remote gitiles)"
  from generate_report_InrD [OF ok] obtain brefs erefs docs where
      od: "fst (open_documents env name output format ?pat) = Inr docs"
    and cl: "fst (close_documents env docs) = Inr ()"
    and out: "?out = snd (resolve_ranges project args) @
             snd (open_documents env name output format ?pat) @
             snd (for_acc brefs []
                    (range_step env project args brefs erefs docs ?pat name remote gitiles)) @
             snd (close_documents env docs)"
    by blast
  note o = open_documents_Inr [OF od]
  note c = close_documents_Inr [OF cl]
  let ?loop = "snd (for_acc brefs []
                    (range_step env project args brefs erefs docs ?pat name remote gitiles))"
  have o0: "opened (snd (resolve_ranges project args)) = []"
    by (intro opened_none emits_weaken [OF emits_resolve_ranges]) simp
  have c0: "closed (snd (resolve_ranges project args)) = []"
    by (intro closed_none emits_weaken [OF emits_resolve_ranges]) simp
  have c1: "closed (snd (open_documents env name output format ?pat)) = []"
    by (intro closed_none emits_weaken [OF emits_open_documents]) simp
  have o2: "opened ?loop = []"
    by (intro opened_none emits_weaken [OF emits_loop]) auto
  have c2: "closed ?loop = []"
    by (intro closed_none emits_weaken [OF emits_loop]) auto
  have op: "opened ?out = handles docs"
    unfolding out by (simp add: o0 o2 o [THEN conjunct2] c)
  have cp: "closed ?out = close_order docs"
    unfolding out by (simp add: c0 c1 c2 c)
  have "drop (length ?out - length (closed ?out)) ?out = map Close (closed ?out)"
    unfolding cp unfolding out c by simp
  moreover have "closed ?out = filter (\<lambda>p. p \<in> set (opened ?out))
             [path_join output FILTER_TEXT, path_join output FILTER_HTML,
              path_join output REPORT_TEXT, path_join output REPORT_HTML]"
    unfolding op cp using o close_order_documents_for by simp
  moreover have "set (closed ?out) = set (opened ?out)"
    unfolding op cp by (rule set_close_order)
  ultimately show ?thesis by simp
qed

section \<open>The statements at the example inputs\<close>

lemma no_io_failure_example: "no_io_failure example_env"
  by (simp add: no_io_failure_def example_env_def)

text \<open>
  The statement at the example repository: without references (two root commits) the
  second section has both records; with two references the single section has the
  records of \<^verbatim>\<open>a..b\<close>.
\<close>

theorem sections_hold_cumulative_records_witness:
  "length (sections_of ''out/report.txt''
     (snd (generate_report example_env [] example_project '''' ''out'' (Some ''text'') None None
             False))) = 2 \<and>
   map row_texts (sec_rows (sections_of ''out/report.txt''
     (snd (generate_report example_env [] example_project '''' ''out'' (Some ''text'') None None
             False)) ! 1)) =
     [[''1111111111111111111122222222222222222222'', ''ann@x.org'', ''bob@x.org'', ''fix''],
      [''aaaaaaaaaaaaaaaaaaaabbbbbbbbbbbbbbbbbbbb'', ''ann@x.org'', ''eve@y.org'', ''fix'']] \<and>
   sec_label (sections_of ''out/report.html''
     (snd (generate_report example_env [''A'', ''B''] example_project '''' ''out'' (Some ''all'')
             None None False)) ! 0) = ''a..b'' \<and>
   map row_texts (sec_rows (sections_of ''out/report.html''
     (snd (generate_report example_env [''A'', ''B''] example_project '''' ''out'' (Some ''all'')
             None None False)) ! 0)) =
     [[''aaaaaaaaaaaaaaaaaaaabbbbbbbbbbbbbbbbbbbb'', ''ann@x.org'', ''eve@y.org'', ''fix''],
      [''1111111111111111111122222222222222222222'', ''ann@x.org'', ''bob@x.org'', ''fix'']]"
proof -
  have r0: "fst (resolve_ranges example_project []) = Inr ([''r1'', ''r2''], ''h'')"
    by code_simp
  have d0: "fst (open_documents example_env '''' ''out'' (Some ''text'') (build_pattern None)) =
              Inr \<lparr>ftext = Some ''out/report.txt'', fhtml = None, ftextp = None, fhtmlp = None\<rparr>"
    by code_simp
  have e1: "extracted example_project ''r1'' ''h'' =
              [(''1111111111111111111122222222222222222222'', ''ann@x.org'', ''bob@x.org'',
                ''fix'')]"
    by code_simp
  have e2: "extracted example_project ''r2'' ''h'' =
              [(''aaaaaaaaaaaaaaaaaaaabbbbbbbbbbbbbbbbbbbb'', ''ann@x.org'', ''eve@y.org'',
                ''fix'')]"
    by code_simp
  have r1: "fst (resolve_ranges example_project [''A'', ''B'']) = Inr ([''a''], ''b'')"
    by code_simp
  have d1: "fst (open_documents example_env '''' ''out'' (Some ''all'') (build_pattern None)) =
              Inr \<lparr>ftext = Some ''out/report.txt'', fhtml = Some ''out/report.html'',
                   ftextp = None, fhtmlp = None\<rparr>"
    by code_simp
  have e3: "extracted example_project ''a'' ''b'' =
              [(''aaaaaaaaaaaaaaaaaaaabbbbbbbbbbbbbbbbbbbb'', ''ann@x.org'', ''eve@y.org'',
                ''fix''),
               (''1111111111111111111122222222222222222222'', ''ann@x.org'', ''bob@x.org'',
                ''fix'')]"
    by code_simp
  have ok0: "fst (generate_report example_env [] example_project [] ''out'' (Some ''text'') None
                    None False) =
     Inr [(''1111111111111111111122222222222222222222'', ''ann@x.org'', ''bob@x.org'', ''fix''),
          (''aaaaaaaaaaaaaaaaaaaabbbbbbbbbbbbbbbbbbbb'', ''ann@x.org'', ''eve@y.org'', ''fix'')]"
    by code_simp
  have ok1: "fst (generate_report example_env [''A'', ''B''] example_project [] ''out''
                    (Some ''all'') None None False) =
     Inr [(''aaaaaaaaaaaaaaaaaaaabbbbbbbbbbbbbbbbbbbb'', ''ann@x.org'', ''eve@y.org'', ''fix''),
          (''1111111111111111111122222222222222222222'', ''ann@x.org'', ''bob@x.org'', ''fix'')]"
    by code_simp
  from sections_hold_cumulative_records [OF ok0 r0 d0, of "''out/report.txt''" 1]
       sections_hold_cumulative_records [OF ok1 r1 d1, of "''out/report.html''" 0]
  show ?thesis
    by (simp add: e1 e2 e3 commit_texts_def)
qed

text \<open>
  C1 as stated fails: without references the example repository has the ranges
  \<^verbatim>\<open>r1..h\<close> and \<^verbatim>\<open>r2..h\<close>; the second range yields one record, and the
  second section of the text report shows two, the first of them from the first range.
\<close>

theorem sections_per_range_counterexample:
  "fst (resolve_ranges example_project []) = Inr ([''r1'', ''r2''], ''h'') \<and>
   extracted example_project ''r2'' ''h'' =
     [(''aaaaaaaaaaaaaaaaaaaabbbbbbbbbbbbbbbbbbbb'', ''ann@x.org'', ''eve@y.org'', ''fix'')] \<and>
   map row_texts (sec_rows (sections_of ''out/report.txt''
     (snd (generate_report example_env [] example_project '''' ''out'' (Some ''text'') None None
             False)) ! 1)) =
     [[''1111111111111111111122222222222222222222'', ''ann@x.org'', ''bob@x.org'', ''fix''],
      [''aaaaaaaaaaaaaaaaaaaabbbbbbbbbbbbbbbbbbbb'', ''ann@x.org'', ''eve@y.org'', ''fix'']] \<and>
   map row_texts (sec_rows (sections_of ''out/report.txt''
     (snd (generate_report example_env [] example_project [] ''out'' (Some ''text'') None None
             False)) ! 1)) \<noteq>
     map commit_texts (extracted example_project ''r2'' ''h'')"
  by code_simp

text \<open>
  The statement at the example repository with the pattern \<^verbatim>\<open>bob@x.org\<close>: the
  filtered HTML section shows the one matching record.
\<close>

theorem filtered_rows_subsequence_witness:
  "subseq
     (map row_texts (sec_rows (sections_of ''out/filter.html''
        (snd (generate_report example_env [''A'', ''B''] example_project ''myproj'' ''out''
                (Some ''all'') (Some [''bob@x.org'']) (Some ''https://review.example.com'')
                True)) ! 0)))
     (map row_texts (sec_rows (sections_of ''out/report.html''
        (snd (generate_report example_env [''A'', ''B''] example_project ''myproj'' ''out''
                (Some ''all'') (Some [''bob@x.org'']) (Some ''https://review.example.com'')
                True)) ! 0))) \<and>
   subseq
     (sec_rows (sections_of ''out/filter.txt''
        (snd (generate_report example_env [''A'', ''B''] example_project ''myproj'' ''out''
                (Some ''all'') (Some [''bob@x.org'']) (Some ''https://review.example.com'')
                True)) ! 0))
     (sec_rows (sections_of ''out/report.txt''
        (snd (generate_report example_env [''A'', ''B''] example_project ''myproj'' ''out''
                (Some ''all'') (Some [''bob@x.org'']) (Some ''https://review.example.com'')
                True)) ! 0)) \<and>
   map row_texts (sec_rows (sections_of ''out/filter.html''
        (snd (generate_report example_env [''A'', ''B''] example_project ''myproj'' ''out''
                (Some ''all'') (Some [''bob@x.org'']) (Some ''https://review.example.com'')
                True)) ! 0)) =
     [[''1111111111111111111122222222222222222222'', ''ann@x.org'', ''bob@x.org'', ''fix'']]"
proof -
  let ?out = "snd (generate_report example_env [''A'', ''B''] example_project ''myproj'' ''out''
                (Some ''all'') (Some [''bob@x.org'']) (Some ''https://review.example.com'')
                True)"
  have d: "fst (open_documents example_env ''myproj'' ''out'' (Some ''all'')
                  (build_pattern (Some [''bob@x.org'']))) =
             Inr \<lparr>ftext = Some ''out/report.txt'', fhtml = Some ''out/report.html'',
                  ftextp = Some ''out/filter.txt'', fhtmlp = Some ''out/filter.html''\<rparr>"
    by code_simp
  have kh: "0 < length (sections_of ''out/filter.html'' ?out)"
    by code_simp
  have kt: "0 < length (sections_of ''out/filter.txt'' ?out)"
    by code_simp
  have v: "map row_texts (sec_rows (sections_of ''out/filter.html'' ?out ! 0)) =
     [[''1111111111111111111122222222222222222222'', ''ann@x.org'', ''bob@x.org'', ''fix'']]"
    by code_simp
  have ok: "fst (generate_report example_env [''A'', ''B''] example_project ''myproj'' ''out''
                (Some ''all'') (Some [''bob@x.org'']) (Some ''https://review.example.com'')
                True) =
     Inr [(''aaaaaaaaaaaaaaaaaaaabbbbbbbbbbbbbbbbbbbb'', ''ann@x.org'', ''eve@y.org'', ''fix''),
          (''1111111111111111111122222222222222222222'', ''ann@x.org'', ''bob@x.org'', ''fix'')]"
    by code_simp
  from filtered_rows_subsequence [OF ok d _ kh, of "''out/report.html''"]
       filtered_rows_subsequence [OF ok d _ kt, of "''out/report.txt''"]
       v
  show ?thesis by simp
qed

text \<open>
  The statement at the example repository: the widths are 40, 9, 9 and 3 in both text
  documents.
\<close>

theorem text_widths_are_column_maxima_witness:
  "sec_tables (sections_of ''out/report.txt''
      (snd (generate_report example_env [''A'', ''B''] example_project ''myproj'' ''out''
              (Some ''text'') (Some [''bob@x.org'']) None False)) ! 0) =
     [Widths (map (\<lambda>j. Max (insert 0 ((\<lambda>r. length (row_texts r ! j)) `
                set (sec_rows (sections_of ''out/report.txt''
                  (snd (generate_report example_env [''A'', ''B''] example_project ''myproj''
                          ''out'' (Some ''text'') (Some [''bob@x.org'']) None False)) ! 0)))))
              [0..<4])] \<and>
   sec_tables (sections_of ''out/filter.txt''
      (snd (generate_report example_env [''A'', ''B''] example_project ''myproj'' ''out''
              (Some ''text'') (Some [''bob@x.org'']) None False)) ! 0) =
   sec_tables (sections_of ''out/report.txt''
      (snd (generate_report example_env [''A'', ''B''] example_project ''myproj'' ''out''
              (Some ''text'') (Some [''bob@x.org'']) None False)) ! 0) \<and>
   sec_tables (sections_of ''out/report.txt''
      (snd (generate_report example_env [''A'', ''B''] example_project ''myproj'' ''out''
              (Some ''text'') (Some [''bob@x.org'']) None False)) ! 0) =
     [Widths [40, 9, 9, 3]]"
proof -
  let ?out = "snd (generate_report example_env [''A'', ''B''] example_project ''myproj'' ''out''
              (Some ''text'') (Some [''bob@x.org'']) None False)"
  have d: "fst (open_documents example_env ''myproj'' ''out'' (Some ''text'')
                  (build_pattern (Some [''bob@x.org'']))) =
             Inr \<lparr>ftext = Some ''out/report.txt'', fhtml = None,
                  ftextp = Some ''out/filter.txt'', fhtmlp = None\<rparr>"
    by code_simp
  have k: "0 < length (sections_of ''out/report.txt'' ?out)"
    by code_simp
  have v: "sec_tables (sections_of ''out/report.txt'' ?out ! 0) = [Widths [40, 9, 9, 3]]"
    by code_simp
  have ok: "fst (generate_report example_env [''A'', ''B''] example_project ''myproj'' ''out''
              (Some ''text'') (Some [''bob@x.org'']) None False) =
     Inr [(''aaaaaaaaaaaaaaaaaaaabbbbbbbbbbbbbbbbbbbb'', ''ann@x.org'', ''eve@y.org'', ''fix''),
          (''1111111111111111111122222222222222222222'', ''ann@x.org'', ''bob@x.org'', ''fix'')]"
    by code_simp
  from text_widths_are_column_maxima [OF ok d _ k, of "''out/filter.txt''"] v
  show ?thesis by simp
qed

text \<open>
  C8 as stated fails for the filtered text report: with a pattern no committer matches,
  the filtered section has no row, and its widths are those of the full section, not 0.
\<close>

theorem filtered_widths_counterexample:
  "sec_rows (sections_of ''out/filter.txt''
      (snd (generate_report example_env [''A'', ''B''] example_project ''myproj'' ''out''
              (Some ''text'') (Some [''zed@z.org'']) None False)) ! 0) = [] \<and>
   sec_tables (sections_of ''out/filter.txt''
      (snd (generate_report example_env [''A'', ''B''] example_project ''myproj'' ''out''
              (Some ''text'') (Some [''zed@z.org'']) None False)) ! 0) =
     [Widths [40, 9, 9, 3]] \<and>
   sec_tables (sections_of ''out/filter.txt''
      (snd (generate_report example_env [''A'', ''B''] example_project ''myproj'' ''out''
              (Some ''text'') (Some [''zed@z.org'']) None False)) ! 0) \<noteq>
     [Widths (map (\<lambda>j. Max (insert 0 ((\<lambda>r. length (row_texts r ! j)) `
                set (sec_rows (sections_of ''out/filter.txt''
                  (snd (generate_report example_env [''A'', ''B''] example_project ''myproj''
                          ''out'' (Some ''text'') (Some [''zed@z.org'']) None False)) ! 0)))))
              [0..<4])]"
  by code_simp

text \<open>
  The statement at an example repository whose first range \<^verbatim>\<open>r0..h\<close> fails: the
  second range is still queried and its record is returned.
\<close>

theorem failed_range_is_skipped_witness:
  "extract_range example_roots ''r0'' ''h'' [] =
     (Inr [], [Log (''--format='' @ [dquote] @ ''%H'') ''r0..h'']) \<and>
   fst (generate_report example_env [] example_roots [] ''out'' (Some ''text'') None None False) =
     Inr [(''1111111111111111111122222222222222222222'', ''ann@x.org'', ''bob@x.org'', ''fix'')] \<and>
   range_queries
     (snd (generate_report example_env [] example_roots [] ''out'' (Some ''text'') None None
             False)) = [''r0..h'', ''r1..h'']"
proof -
  have r: "fst (resolve_ranges example_roots []) = Inr ([''r0'', ''r1''], ''h'')"
    by code_simp
  have f: "fst (log example_roots (''--format='' @ [dquote] @ ''%H'') (''r0'' @ ''..'' @ ''h'')) \<noteq> 0"
    by code_simp
  have e0: "extracted example_roots ''r0'' ''h'' = []"
    by code_simp
  have e: "extracted example_roots ''r1'' ''h'' =
     [(''1111111111111111111122222222222222222222'', ''ann@x.org'', ''bob@x.org'', ''fix'')]"
    by code_simp
  from failed_range_is_skipped [OF no_io_failure_example r f, of "[]" "[]" "''out''"
         "Some ''text''" None None False] e e0
  show ?thesis by simp
qed

text \<open>
  The statement at an example repository with the single root \<open>r1\<close> and both
  formats: each full document has the one section \<open>h\<close>.
\<close>

theorem zero_reference_run_witness:
  "take 2 (snd (generate_report example_env [] example_single_root [] ''out'' (Some ''all'')
                  None None False)) =
     [Print ''No SHA-1 provided, use HEAD by default'', RevParse ''HEAD''] \<and>
   fst (resolve_ranges example_single_root []) = Inr ([''r1''], ''h'') \<and>
   range_queries (snd (generate_report example_env [] example_single_root [] ''out''
                         (Some ''all'') None None False)) = [''r1..h''] \<and>
   map sec_label (sections_of ''out/report.txt''
      (snd (generate_report example_env [] example_single_root [] ''out'' (Some ''all'')
              None None False))) = [''h''] \<and>
   map sec_label (sections_of ''out/report.html''
      (snd (generate_report example_env [] example_single_root [] ''out'' (Some ''all'')
              None None False))) = [''h'']"
proof -
  have ok: "fst (generate_report example_env [] example_single_root [] ''out'' (Some ''all'')
                  None None False) =
     Inr [(''1111111111111111111122222222222222222222'', ''ann@x.org'', ''bob@x.org'', ''fix'')]"
    by code_simp
  have h: "fst (secure_sha example_single_root ''HEAD'') = Inr ''h''"
    by code_simp
  have l: "rev_list example_single_root ''--max-parents=0'' ''h'' = (0, ''r1'')"
    by code_simp
  have d: "fst (open_documents example_env [] ''out'' (Some ''all'') (build_pattern None)) =
             Inr \<lparr>ftext = Some ''out/report.txt'', fhtml = Some ''out/report.html'',
                  ftextp = None, fhtmlp = None\<rparr>"
    by code_simp
  have n: "newline \<notin> set ''r1''"
    by code_simp
  from zero_reference_run [OF ok h l d, of "''out/report.txt''"]
       zero_reference_run [OF ok h l d, of "''out/report.html''"] n
  show ?thesis by simp
qed

text \<open>
  The statement at the example repository with both formats and a pattern.
\<close>

theorem documents_closed_on_completion_witness:
  "closed (snd (generate_report example_env [''A'', ''B''] example_project ''myproj'' ''out''
                  (Some ''all'') (Some [''bob@x.org'']) None False)) =
     [''out/filter.txt'', ''out/filter.html'', ''out/report.txt'', ''out/report.html''] \<and>
   set (closed (snd (generate_report example_env [''A'', ''B''] example_project ''myproj''
                       ''out'' (Some ''all'') (Some [''bob@x.org'']) None False))) =
   set (opened (snd (generate_report example_env [''A'', ''B''] example_project ''myproj''
                       ''out'' (Some ''all'') (Some [''bob@x.org'']) None False)))"
proof -
  have ok: "fst (generate_report example_env [''A'', ''B''] example_project ''myproj'' ''out''
                  (Some ''all'') (Some [''bob@x.org'']) None False) =
     Inr [(''aaaaaaaaaaaaaaaaaaaabbbbbbbbbbbbbbbbbbbb'', ''ann@x.org'', ''eve@y.org'', ''fix''),
          (''1111111111111111111122222222222222222222'', ''ann@x.org'', ''bob@x.org'', ''fix'')]"
    by code_simp
  have v: "closed (snd (generate_report example_env [''A'', ''B''] example_project ''myproj''
                  ''out'' (Some ''all'') (Some [''bob@x.org'']) None False)) =
     [''out/filter.txt'', ''out/filter.html'', ''out/report.txt'', ''out/report.html'']"
    by code_simp
  from documents_closed_on_completion [OF ok]
  have "set (closed (snd (generate_report example_env [''A'', ''B''] example_project ''myproj''
                       ''out'' (Some ''all'') (Some [''bob@x.org'']) None False))) =
   set (opened (snd (generate_report example_env [''A'', ''B''] example_project ''myproj''
                       ''out'' (Some ''all'') (Some [''bob@x.org'']) None False)))"
    by (rule conjunct1 [OF conjunct2])
  with v show ?thesis by (simp only: simp_thms)
qed

text \<open>
  C10 as stated fails: when writing a row raises, the exception leaves the function;
  the four documents that were opened are never closed.
\<close>

theorem documents_left_open_counterexample:
  "fst (generate_report example_failing_env [''A'', ''B''] example_project ''myproj'' ''out''
          (Some ''all'') (Some [''bob@x.org'']) None False) = Inl IOError \<and>
   opened (snd (generate_report example_failing_env [''A'', ''B''] example_project ''myproj''
                  ''out'' (Some ''all'') (Some [''bob@x.org'']) None False)) =
     [''out/report.txt'', ''out/filter.txt'', ''out/report.html'', ''out/filter.html''] \<and>
   closed (snd (generate_report example_failing_env [''A'', ''B''] example_project ''myproj''
                  ''out'' (Some ''all'') (Some [''bob@x.org'']) None False)) = []"
  by code_simp

section \<open>The sha1 cell of the HTML reports\<close>

text \<open>
  C2 at a run with a remote location, a project name and a pattern.  With the gitiles
  flag the full report links the first 20 characters of the sha1 to
  \<^verbatim>\<open><remote>#/q/<sha1>\<close>, and the filtered report links them to
  \<^verbatim>\<open><remote>#q,<sha1>\<close>; without the flag the filtered report links the whole
  sha1 to \<^verbatim>\<open><remote>#q,<sha1>\<close> as well.
\<close>

theorem filtered_html_query_link_differs:
  "hd (fst (last (sec_rows (sections_of ''out/report.html''
      (snd (generate_report example_env [''A'', ''B''] example_project ''myproj'' ''out''
              (Some ''html'') (Some [''bob@x.org'']) (Some ''https://review.example.com'')
              True)) ! 0)))) =
     Item (Tuple
        [Item (Str ''11111111111111111111'')
           (Some ''https://review.example.com#/q/1111111111111111111122222222222222222222'')
           None,
         Item (Str ''22222222222222222222'')
           (Some (''https://review.example.com/plugins/gitiles/myproj/+/'' @
                  ''1111111111111111111122222222222222222222^!''))
           None]) None (Some ''pre'') \<and>
   hd (fst (hd (sec_rows (sections_of ''out/filter.html''
      (snd (generate_report example_env [''A'', ''B''] example_project ''myproj'' ''out''
              (Some ''html'') (Some [''bob@x.org'']) (Some ''https://review.example.com'')
              True)) ! 0)))) =
     Item (Tuple
        [Item (Str ''11111111111111111111'')
           (Some ''https://review.example.com#q,1111111111111111111122222222222222222222'')
           None,
         Item (Str ''22222222222222222222'')
           (Some (''https://review.example.com/plugins/gitiles/myproj/+/'' @
                  ''1111111111111111111122222222222222222222^!''))
           None]) None (Some ''pre'') \<and>
   hd (fst (hd (sec_rows (sections_of ''out/filter.html''
      (snd (generate_report example_env [''A'', ''B''] example_project ''myproj'' ''out''
              (Some ''html'') (Some [''bob@x.org'']) (Some ''https://review.example.com'')
              False)) ! 0)))) =
     Item (Str ''1111111111111111111122222222222222222222'')
        (Some ''https://review.example.com#q,1111111111111111111122222222222222222222'')
        (Some ''pre'')"
  by code_simp

section \<open>execute with a remote location\<close>

text \<open>
  C9 at a remote location with a path: \<^verbatim>\<open>execute\<close> raises
  \<open>AttributeError\<close> at the attribute lookup on the imported function, before the
  URL is parsed and before any report is generated.
\<close>

theorem execute_with_remote_raises:
  "execute example_env example_options [''A'', ''B''] example_project =
     (Inl (AttributeError ''urlparse''), [])"
  by code_simp

end
